theory Spec2Isabelle
  imports Main
begin

section \<open>Data model\<close>

text \<open>
  A RID is the 4-tuple \<open>(page_range_index, page_index, slot_index, kind)\<close>; the kind is the
  Python string \<open>'b'\<close> or \<open>'t'\<close>. Every test of the source has the form
  \<open>page_type == "b"\<close> with the tail as the other branch.
\<close>

datatype kind = B | T

type_synonym rid = "nat \<times> nat \<times> nat \<times> kind"

text \<open>Buffer pool page identifier \<open>("base" | "tail", page_range_index, page_index)\<close>.\<close>

type_synonym page_id = "kind \<times> nat \<times> nat"

text \<open>
  The Python values that an indirection slot, and the \<open>rid\<close> field of a \<open>Record\<close>, can
  hold: \<open>None\<close>, the tombstone \<open>["empty"]\<close>, or a RID tuple.
\<close>

datatype pyref = PyNone | EmptyMark | Rid rid

datatype py_error = IndexError | KeyError | ValueError | PageFull

text \<open>\<open>Record(rid, key, columns)\<close> of \<open>lstore.table\<close>.\<close>

datatype Record = Record (rec_rid: pyref) (rec_key: int) (rec_columns: "int list")

text \<open>The result of \<open>Query.sum\<close>: the Python value \<open>False\<close> or an integer.\<close>

datatype sum_result = PyFalse | PyInt int

text \<open>
  The page data dictionary handed out by the buffer pool, with the keys \<open>columns\<close>,
  \<open>rid\<close>, \<open>timestamp\<close>, \<open>schema_encoding\<close> and \<open>indirection\<close>.
\<close>

record page_data =
  d_columns :: "int list list"
  d_rid :: "rid list"
  d_timestamp :: "string list"
  d_schema_encoding :: "string list"
  d_indirection :: "pyref list"

text \<open>
  The page object held by a page range (base page or tail page): the physical pages
  \<open>pages\<close>, one append-only integer list per column, and the per-slot vectors.
\<close>

record page =
  pages :: "int list list"
  p_rid :: "rid list"
  p_start_time :: "string list"
  p_schema_encoding :: "string list"
  p_indirection :: "pyref list"
  p_num_records :: nat

record page_range =
  base_pages :: "page list"
  tail_pages :: "page list"

text \<open>A lock of the lock manager: key, transaction id, exclusive or shared.\<close>

type_synonym lock = "int \<times> nat \<times> bool"

datatype lock_mode = Read | Insert | Update | Delete

record transaction_obj =
  transaction_id :: nat
  locks_held :: "int list"

text \<open>
  The table together with the pieces of the database and of the query object that the
  query operations read and write. \<open>page_directory\<close> is a Python dictionary, whose
  \<open>items()\<close> iterate in insertion order: an association list. \<open>indices\<close> is
  \<open>table.index.indices\<close>: per column, nothing or a mapping from a value to its RIDs.
  \<open>bp_pages\<close> and \<open>pins\<close> are the buffer pool of the database, \<open>locks\<close> its lock
  manager, \<open>transaction\<close> the transaction of the query object. The three constants are
  those of \<open>lstore.config\<close>.
\<close>

record state =
  num_columns :: nat
  key :: nat
  page_ranges :: "page_range list"
  page_directory :: "(rid \<times> Record) list"
  indices :: "nat \<Rightarrow> (int \<times> rid list) list option"
  merge_counter :: nat
  merge_scheduled :: bool
  bp_pages :: "page_id \<Rightarrow> page_data option"
  pins :: "page_id \<Rightarrow> int"
  locks :: "lock list"
  transaction :: "transaction_obj option"
  PAGE_CAPACITY :: nat
  RANGE_BASE_PAGES :: nat
  MERGE_THRESHOLD :: nat

section \<open>Python dictionaries\<close>

fun dict_set :: "('k \<times> 'v) list \<Rightarrow> 'k \<Rightarrow> 'v \<Rightarrow> ('k \<times> 'v) list" where
  "dict_set [] k v = [(k, v)]"
| "dict_set (p # ps) k v = (if fst p = k then (k, v) # ps else p # dict_set ps k v)"

definition dict_del :: "('k \<times> 'v) list \<Rightarrow> 'k \<Rightarrow> ('k \<times> 'v) list" where
  "dict_del ps k = filter (\<lambda>p. fst p \<noteq> k) ps"

section \<open>Buffer pool\<close>

text \<open>
  Modelled from the spec: the buffer pool (\<open>lstore.bufferpool\<close> is not part of the
  sources). \<open>get_page\<close> returns the structured view of the page, with one list per
  column, and increments the pin count of the page; \<open>unpin_page\<close> decrements it;
  \<open>set_page\<close> installs a mutated snapshot. The view that \<open>get_page\<close> returns is a
  snapshot: a change reaches the pool through \<open>set_page\<close>.
\<close>

definition empty_page_data :: "nat \<Rightarrow> page_data" where
  "empty_page_data n =
     \<lparr>d_columns = replicate n [], d_rid = [], d_timestamp = [],
      d_schema_encoding = [], d_indirection = []\<rparr>"

definition page_view :: "state \<Rightarrow> page_id \<Rightarrow> page_data" where
  "page_view s pid =
     (case bp_pages s pid of Some d \<Rightarrow> d | None \<Rightarrow> empty_page_data (num_columns s))"

definition pin_page :: "state \<Rightarrow> page_id \<Rightarrow> state" where
  "pin_page s pid = s\<lparr>pins := (pins s)(pid := pins s pid + 1)\<rparr>"

definition get_page :: "state \<Rightarrow> page_id \<Rightarrow> page_data \<times> state" where
  "get_page s pid = (page_view s pid, pin_page s pid)"

definition unpin_page :: "state \<Rightarrow> page_id \<Rightarrow> state" where
  "unpin_page s pid = s\<lparr>pins := (pins s)(pid := pins s pid - 1)\<rparr>"

definition set_page :: "state \<Rightarrow> page_id \<Rightarrow> page_data \<Rightarrow> state" where
  "set_page s pid d = s\<lparr>bp_pages := (bp_pages s)(pid \<mapsto> d)\<rparr>"

section \<open>Index\<close>

text \<open>
  Modelled from the spec: the index (\<open>lstore.index\<close> is not part of the sources). For
  each column a mapping from a value to the RIDs under it; \<open>locate\<close> returns them, the
  empty list if there are none; \<open>locate_range\<close> returns the RIDs of the values in
  \<open>[lo, hi]\<close>; \<open>insert\<close> and \<open>delete\<close> add and remove one RID under one value. The
  two-argument \<open>insert\<close> and \<open>delete\<close> that the query calls work on the key column.
\<close>

definition index_locate :: "state \<Rightarrow> nat \<Rightarrow> int \<Rightarrow> rid list" where
  "index_locate s col v =
     (case indices s col of None \<Rightarrow> []
      | Some m \<Rightarrow> (case map_of m v of None \<Rightarrow> [] | Some rs \<Rightarrow> rs))"

definition index_locate_range :: "state \<Rightarrow> int \<Rightarrow> int \<Rightarrow> nat \<Rightarrow> rid list" where
  "index_locate_range s lo hi col =
     (case indices s col of None \<Rightarrow> []
      | Some m \<Rightarrow> concat (map snd (filter (\<lambda>p. lo \<le> fst p \<and> fst p \<le> hi) m)))"

definition index_insert_col :: "state \<Rightarrow> nat \<Rightarrow> int \<Rightarrow> rid \<Rightarrow> state" where
  "index_insert_col s col v r =
     (case indices s col of None \<Rightarrow> s
      | Some m \<Rightarrow>
          (let rs = (case map_of m v of None \<Rightarrow> [] | Some rs \<Rightarrow> rs);
               rs' = (if r \<in> set rs then rs else rs @ [r])
           in s\<lparr>indices := (indices s)(col \<mapsto> dict_set m v rs')\<rparr>))"

definition index_delete_col :: "state \<Rightarrow> nat \<Rightarrow> int \<Rightarrow> rid \<Rightarrow> state" where
  "index_delete_col s col v r =
     (case indices s col of None \<Rightarrow> s
      | Some m \<Rightarrow>
          (case map_of m v of None \<Rightarrow> s
           | Some rs \<Rightarrow>
               (let rs' = filter (\<lambda>x. x \<noteq> r) rs
                in s\<lparr>indices := (indices s)(col \<mapsto>
                      (if rs' = [] then dict_del m v else dict_set m v rs'))\<rparr>)))"

definition index_insert :: "state \<Rightarrow> int \<Rightarrow> rid \<Rightarrow> state" where
  "index_insert s v r = index_insert_col s (key s) v r"

definition index_delete :: "state \<Rightarrow> int \<Rightarrow> rid \<Rightarrow> state" where
  "index_delete s v r = index_delete_col s (key s) v r"

section \<open>Lock manager\<close>

text \<open>
  Modelled from the spec: the lock manager (not part of the sources).
  \<open>acquire_lock(tx_id, key, mode)\<close>: \<open>read\<close> is shared, \<open>insert\<close>, \<open>update\<close> and
  \<open>delete\<close> are exclusive; a conflict with a lock of another transaction returns false
  without blocking.
\<close>

definition exclusive :: "lock_mode \<Rightarrow> bool" where
  "exclusive m = (m \<noteq> Read)"

definition acquire_lock :: "lock list \<Rightarrow> nat \<Rightarrow> int \<Rightarrow> lock_mode \<Rightarrow> bool \<times> lock list" where
  "acquire_lock ls tx k m =
     (if \<exists>l \<in> set ls. fst l = k \<and> fst (snd l) \<noteq> tx \<and> (snd (snd l) \<or> exclusive m)
      then (False, ls)
      else (True, ls @ [(k, tx, exclusive m)]))"

text \<open>
  The guard that opens \<open>insert\<close>, \<open>update\<close> and \<open>delete\<close>:
  \<^verbatim>\<open>
  if self.transaction and self.lock_manager:
      if not self.lock_manager.acquire_lock(self.transaction.transaction_id, key, mode):
          return False
      self.transaction.locks_held.add(key)
  \<close>
  \<open>None\<close> is the refusal, on which the operation returns \<open>False\<close>.
\<close>

definition lock_guard :: "state \<Rightarrow> int \<Rightarrow> lock_mode \<Rightarrow> state option" where
  "lock_guard s k m =
     (case transaction s of None \<Rightarrow> Some s
      | Some tx \<Rightarrow>
          (case acquire_lock (locks s) (transaction_id tx) k m of
             (False, ls) \<Rightarrow> None
           | (True, ls) \<Rightarrow>
               Some (s\<lparr>locks := ls,
                       transaction := Some (tx\<lparr>locks_held :=
                         (if k \<in> set (locks_held tx) then locks_held tx
                          else locks_held tx @ [k])\<rparr>)\<rparr>)))"

section \<open>Version resolution\<close>

text \<open>\<open>Query._get_latest_version\<close>: one hop from the base slot, unpinned in \<open>finally\<close>.\<close>

definition get_latest_version :: "state \<Rightarrow> rid \<Rightarrow> rid \<times> state" where
  "get_latest_version s r =
     (case r of (page_range_idx, page_idx, record_idx, page_type) \<Rightarrow>
        (let base_page_id = (B, page_range_idx, page_idx);
             (base_page_data, s1) = get_page s base_page_id;
             indirections = d_indirection base_page_data;
             res = (if record_idx < length indirections
                    then (case indirections ! record_idx of
                            PyNone \<Rightarrow> r | EmptyMark \<Rightarrow> r | Rid temp \<Rightarrow> temp)
                    else r)
         in (res, unpin_page s1 base_page_id)))"

text \<open>
  \<open>Query._safely_get_latest_version\<close>: the walk along the indirections of the buffer pool
  pages, with the set of visited RIDs and at most 1000 iterations. The body of the
  \<open>while\<close> loop is \<open>safely_get_latest_version_step\<close>: \<open>Inl\<close> is a \<open>return\<close> inside the
  loop, \<open>Inr\<close> the state, the visited set and \<open>current\<close> for the next iteration. The
  first argument of the loop counts the iterations that are left; when they run out the
  result is the RID the walk started from.
\<close>

definition safely_get_latest_version_step ::
  "state \<Rightarrow> rid list \<Rightarrow> rid \<Rightarrow> (rid \<times> state) + (state \<times> rid list \<times> rid)" where
  "safely_get_latest_version_step s visited current =
     (case current of (page_range_idx, page_idx, record_idx, page_type) \<Rightarrow>
        (let page_id = (page_type, page_range_idx, page_idx);
             (page_data, s1) = get_page s page_id;
             indirections = d_indirection page_data
         in if length indirections \<le> record_idx then Inl (current, unpin_page s1 page_id)
            else (case indirections ! record_idx of
                    PyNone \<Rightarrow> Inl (current, unpin_page s1 page_id)
                  | EmptyMark \<Rightarrow> Inl (current, unpin_page s1 page_id)
                  | Rid next_rid \<Rightarrow>
                      if next_rid \<in> set visited then Inl (current, unpin_page s1 page_id)
                      else Inr (unpin_page s1 page_id, next_rid # visited, next_rid))))"

fun safely_get_latest_version_loop ::
  "nat \<Rightarrow> state \<Rightarrow> rid \<Rightarrow> rid list \<Rightarrow> rid \<Rightarrow> rid \<times> state" where
  "safely_get_latest_version_loop 0 s r visited current = (r, s)"
| "safely_get_latest_version_loop (Suc n) s r visited current =
     (case safely_get_latest_version_step s visited current of
        Inl res \<Rightarrow> res
      | Inr (s', visited', current') \<Rightarrow> safely_get_latest_version_loop n s' r visited' current')"

definition safely_get_latest_version :: "state \<Rightarrow> rid \<Rightarrow> rid \<times> state" where
  "safely_get_latest_version s r = safely_get_latest_version_loop 1000 s r [r] r"

text \<open>
  \<open>Query._safely_get_historical_version\<close>: the walk along the indirections of the page
  objects, \<open>steps_back\<close> times at most. The body of the \<open>while\<close> loop is
  \<open>safely_get_historical_version_step\<close>, given whether this is the last step: \<open>Inl\<close> is
  what the function returns when the loop is left here, \<open>Inr\<close> the visited set and
  \<open>current\<close> for the next iteration. The list \<open>chain\<close> of the source grows with
  \<open>current\<close>, so that \<open>chain[-1]\<close> is \<open>current\<close>. A \<open>break\<close> leaves the loop with
  \<open>steps_taken < steps_back\<close>, on which the base RID is returned. A tombstone
  \<open>["empty"]\<close> read as the previous version becomes \<open>current\<close>: it is returned when
  that was the last step; else the next iteration fails to unpack it and the handler
  returns the base RID.
\<close>

definition safely_get_historical_version_step ::
  "bool \<Rightarrow> state \<Rightarrow> rid \<Rightarrow> rid list \<Rightarrow> rid \<Rightarrow> pyref + (rid list \<times> rid)" where
  "safely_get_historical_version_step last_step s base_rid visited current =
     (if current = base_rid then Inl (Rid base_rid)
      else (case current of (c_range_idx, c_page_idx, c_record_idx, c_page_type) \<Rightarrow>
        if length (page_ranges s) \<le> c_range_idx then Inl (Rid base_rid)
        else (let c_range = page_ranges s ! c_range_idx;
                  ps = (if c_page_type = B then base_pages c_range else tail_pages c_range)
              in if length ps \<le> c_page_idx then Inl (Rid base_rid)
                 else (let c_page = ps ! c_page_idx
                       in if length (p_indirection c_page) \<le> c_record_idx
                          then Inl (Rid base_rid)
                          else (case p_indirection c_page ! c_record_idx of
                                  PyNone \<Rightarrow> Inl (Rid base_rid)
                                | EmptyMark \<Rightarrow>
                                    Inl (if last_step then EmptyMark else Rid base_rid)
                                | Rid prev \<Rightarrow>
                                    if prev = current then Inl (Rid base_rid)
                                    else if prev \<in> set visited then Inl (Rid base_rid)
                                    else Inr (prev # visited, prev))))))"

fun safely_get_historical_version_loop ::
  "nat \<Rightarrow> state \<Rightarrow> rid \<Rightarrow> rid list \<Rightarrow> rid \<Rightarrow> pyref" where
  "safely_get_historical_version_loop 0 s base_rid visited current = Rid current"
| "safely_get_historical_version_loop (Suc n) s base_rid visited current =
     (case safely_get_historical_version_step (n = 0) s base_rid visited current of
        Inl res \<Rightarrow> res
      | Inr (visited', current') \<Rightarrow>
          safely_get_historical_version_loop n s base_rid visited' current')"

definition safely_get_historical_version :: "state \<Rightarrow> rid \<Rightarrow> rid \<Rightarrow> nat \<Rightarrow> pyref" where
  "safely_get_historical_version s current_rid base_rid steps_back =
     safely_get_historical_version_loop steps_back s base_rid [current_rid] current_rid"

text \<open>
  \<open>Query._get_column_value\<close>, the second definition of the class (it replaces the first
  one): the value in the buffer pool view if the slot is there, else the value in the
  physical page of the page object, else \<open>None\<close>.
\<close>

definition get_column_value :: "state \<Rightarrow> rid \<Rightarrow> nat \<Rightarrow> int option \<times> state" where
  "get_column_value s r column_index =
     (case r of (page_range_idx, page_idx, record_idx, page_type) \<Rightarrow>
        (let page_identifier = (page_type, page_range_idx, page_idx);
             (page_data, s1) = get_page s page_identifier
         in if column_index < length (d_columns page_data)
               \<and> record_idx < length (d_columns page_data ! column_index)
            then (Some (d_columns page_data ! column_index ! record_idx),
                  unpin_page s1 page_identifier)
            else (let s2 = unpin_page s1 page_identifier
                  in if length (page_ranges s2) \<le> page_range_idx then (None, s2)
                     else (let page_range = page_ranges s2 ! page_range_idx;
                               ps = (if page_type = B then base_pages page_range
                                     else tail_pages page_range)
                           in if length ps \<le> page_idx then (None, s2)
                              else (let pg = ps ! page_idx
                                    in if column_index < length (pages pg)
                                          \<and> record_idx < length (pages pg ! column_index)
                                       then (Some (pages pg ! column_index ! record_idx), s2)
                                       else (None, s2))))))"

section \<open>Pages and page ranges\<close>

text \<open>
  Modelled from the spec: the page classes (\<open>lstore.page\<close> is not part of the sources).
  A physical page has capacity \<open>PAGE_CAPACITY\<close>; \<open>write\<close> appends a value and fails on
  a full page. \<open>has_capacity\<close> of a base or tail page is that of its first physical
  page. \<open>add_tail_page\<close> appends a freshly constructed tail page to a page range.
\<close>

definition empty_page :: "nat \<Rightarrow> page" where
  "empty_page n =
     \<lparr>pages = replicate n [], p_rid = [], p_start_time = [], p_schema_encoding = [],
      p_indirection = [], p_num_records = 0\<rparr>"

definition has_capacity :: "nat \<Rightarrow> page \<Rightarrow> py_error + bool" where
  "has_capacity K pg = (case pages pg of [] \<Rightarrow> Inl IndexError | c # _ \<Rightarrow> Inr (length c < K))"

definition add_tail_page :: "nat \<Rightarrow> page_range \<Rightarrow> page_range" where
  "add_tail_page n pr = pr\<lparr>tail_pages := tail_pages pr @ [empty_page n]\<rparr>"

definition put_page_range :: "state \<Rightarrow> nat \<Rightarrow> page_range \<Rightarrow> state" where
  "put_page_range s i pr = s\<lparr>page_ranges := (page_ranges s)[i := pr]\<rparr>"

definition put_tail_page :: "state \<Rightarrow> nat \<Rightarrow> nat \<Rightarrow> page \<Rightarrow> state" where
  "put_tail_page s i j pg =
     put_page_range s i
       ((page_ranges s ! i)\<lparr>tail_pages := (tail_pages (page_ranges s ! i))[j := pg]\<rparr>)"

definition put_base_page :: "state \<Rightarrow> nat \<Rightarrow> nat \<Rightarrow> page \<Rightarrow> state" where
  "put_base_page s i j pg =
     put_page_range s i
       ((page_ranges s ! i)\<lparr>base_pages := (base_pages (page_ranges s ! i))[j := pg]\<rparr>)"

section \<open>Update\<close>

text \<open>
  Lines 523 to 527 of \<open>Query.update\<close>: a tail page is added when the page range has none
  or when the last one is full.
\<close>

definition ensure_tail_page :: "state \<Rightarrow> nat \<Rightarrow> py_error + state" where
  "ensure_tail_page s page_range_idx =
     (let page_range = page_ranges s ! page_range_idx
      in if tail_pages page_range = []
         then Inr (put_page_range s page_range_idx (add_tail_page (num_columns s) page_range))
         else (case has_capacity (PAGE_CAPACITY s) (last (tail_pages page_range)) of
                 Inl e \<Rightarrow> Inl e
               | Inr True \<Rightarrow> Inr s
               | Inr False \<Rightarrow>
                   Inr (put_page_range s page_range_idx
                          (add_tail_page (num_columns s) page_range))))"

text \<open>
  Lines 545 to 549: the schema encoding, a \<open>'1'\<close> for each supplied column. A supplied
  column beyond the columns of the table raises \<open>IndexError\<close>.
\<close>

fun schema_loop :: "string \<Rightarrow> nat \<Rightarrow> int option list \<Rightarrow> py_error + string" where
  "schema_loop schema i [] = Inr schema"
| "schema_loop schema i (col # cols) =
     (case col of
        None \<Rightarrow> schema_loop schema (Suc i) cols
      | Some v \<Rightarrow>
          if i < length schema then schema_loop (schema[i := CHR ''1'']) (Suc i) cols
          else Inl IndexError)"

text \<open>Lines 556 to 563: the row of the new tail record.\<close>

definition tail_page_column :: "nat \<Rightarrow> int \<Rightarrow> int option list \<Rightarrow> int list \<Rightarrow> nat \<Rightarrow> int" where
  "tail_page_column k original_key columns current_columns i =
     (if i = k then original_key
      else if i < length columns \<and> columns ! i \<noteq> None then the (columns ! i)
      else if i < length current_columns then current_columns ! i else 0)"

definition tail_page_columns :: "nat \<Rightarrow> nat \<Rightarrow> int \<Rightarrow> int option list \<Rightarrow> int list \<Rightarrow> int list" where
  "tail_page_columns n k original_key columns current_columns =
     map (tail_page_column k original_key columns current_columns) [0..<n]"

text \<open>
  Lines 565 to 567: each value is appended to the column of the buffer pool view and
  written to the physical page of the tail page object. An error leaves the physical
  pages written so far.
\<close>

fun write_columns ::
  "nat \<Rightarrow> nat \<Rightarrow> int list \<Rightarrow> int list list \<Rightarrow> int list list
   \<Rightarrow> (py_error \<times> int list list) + (int list list \<times> int list list)" where
  "write_columns K i [] dcols phys = Inr (dcols, phys)"
| "write_columns K i (v # vs) dcols phys =
     (if length dcols \<le> i \<or> length phys \<le> i then Inl (IndexError, phys)
      else if K \<le> length (phys ! i) then Inl (PageFull, phys)
      else write_columns K (Suc i) vs (dcols[i := dcols ! i @ [v]]) (phys[i := phys ! i @ [v]]))"

text \<open>
  Lines 565 to 580: the tail record is appended to the view and to the page object, the
  base slot of the view is pointed at the new tail RID, and both views are installed.
\<close>

definition update_write ::
  "state \<Rightarrow> page_id \<Rightarrow> page_data \<Rightarrow> nat \<Rightarrow> nat \<Rightarrow> nat \<Rightarrow> page_data \<Rightarrow> rid \<Rightarrow> rid
   \<Rightarrow> string \<Rightarrow> string \<Rightarrow> int list \<Rightarrow> (py_error \<times> state) + state" where
  "update_write s base_page_id base_page_data record_idx page_range_idx tail_page_idx
     tail_page_data latest_rid tail_rid schema_str timestamp row =
     (let tail_page_id = (T, page_range_idx, tail_page_idx);
          tail_page = tail_pages (page_ranges s ! page_range_idx) ! tail_page_idx
      in case write_columns (PAGE_CAPACITY s) 0 row (d_columns tail_page_data)
                (pages tail_page) of
           Inl (e, phys) \<Rightarrow>
             Inl (e, put_tail_page s page_range_idx tail_page_idx (tail_page\<lparr>pages := phys\<rparr>))
         | Inr (dcols, phys) \<Rightarrow>
             (let tail_page_data' = tail_page_data
                    \<lparr>d_columns := dcols,
                     d_rid := d_rid tail_page_data @ [tail_rid],
                     d_timestamp := d_timestamp tail_page_data @ [timestamp],
                     d_schema_encoding := d_schema_encoding tail_page_data @ [schema_str],
                     d_indirection := d_indirection tail_page_data @ [Rid latest_rid]\<rparr>;
                  tail_page' = tail_page
                    \<lparr>pages := phys,
                     p_rid := p_rid tail_page @ [tail_rid],
                     p_start_time := p_start_time tail_page @ [timestamp],
                     p_schema_encoding := p_schema_encoding tail_page @ [schema_str],
                     p_indirection := p_indirection tail_page @ [Rid latest_rid],
                     p_num_records := p_num_records tail_page + 1\<rparr>;
                  s1 = put_tail_page s page_range_idx tail_page_idx tail_page'
              in if length (d_indirection base_page_data) \<le> record_idx
                 then Inl (IndexError, s1)
                 else Inr (set_page
                             (set_page s1 base_page_id
                                (base_page_data\<lparr>d_indirection :=
                                   (d_indirection base_page_data)[record_idx := Rid tail_rid]\<rparr>))
                             tail_page_id tail_page_data')))"

text \<open>
  Modelled from the spec: \<open>Table.trigger_merge\<close> (\<open>lstore.table\<close> is not part of the
  sources) schedules the background consolidation; the merge itself runs outside the
  query.
\<close>

definition trigger_merge :: "state \<Rightarrow> state" where
  "trigger_merge s = s\<lparr>merge_scheduled := True\<rparr>"

text \<open>Line 582: the key after the update.\<close>

definition new_key_of :: "nat \<Rightarrow> int \<Rightarrow> int option list \<Rightarrow> int" where
  "new_key_of k primary_key columns =
     (if k < length columns \<and> columns ! k \<noteq> None \<and> columns ! k \<noteq> Some primary_key
      then the (columns ! k) else primary_key)"

text \<open>Lines 588 to 597: what a changed primary key does to page directory and index.\<close>

definition update_key_change :: "state \<Rightarrow> int \<Rightarrow> int \<Rightarrow> rid \<Rightarrow> rid \<Rightarrow> state" where
  "update_key_change s primary_key new_key latest_rid tail_rid =
     (if new_key \<noteq> primary_key
      then (let s1 = (if map_of (page_directory s) latest_rid \<noteq> None
                      then s\<lparr>page_directory := dict_del (page_directory s) latest_rid\<rparr>
                      else s)
            in if indices s1 (key s1) \<noteq> None
               then index_insert (index_delete s1 primary_key latest_rid) new_key tail_rid
               else s1)
      else s)"

text \<open>Lines 599 to 605: both pages are unpinned and the merge counter is advanced.\<close>

definition update_finish :: "state \<Rightarrow> page_id \<Rightarrow> page_id \<Rightarrow> state" where
  "update_finish s base_page_id tail_page_id =
     (let s1 = unpin_page (unpin_page s tail_page_id) base_page_id;
          s2 = s1\<lparr>merge_counter := merge_counter s1 + 1\<rparr>
      in if MERGE_THRESHOLD s2 \<le> merge_counter s2
         then trigger_merge (s2\<lparr>merge_counter := 0\<rparr>)
         else s2)"

text \<open>
  Lines 582 to 607: the new record enters the page directory, then the key change, the
  unpinning and the merge counter.
\<close>

definition update_commit ::
  "state \<Rightarrow> int \<Rightarrow> int option list \<Rightarrow> rid \<Rightarrow> rid \<Rightarrow> int list \<Rightarrow> page_id \<Rightarrow> page_id \<Rightarrow> state" where
  "update_commit s primary_key columns latest_rid tail_rid row base_page_id tail_page_id =
     (let new_key = new_key_of (key s) primary_key columns;
          s1 = s\<lparr>page_directory :=
                  dict_set (page_directory s) tail_rid (Record (Rid tail_rid) primary_key row)\<rparr>;
          s2 = update_key_change s1 primary_key new_key latest_rid tail_rid
      in update_finish s2 base_page_id tail_page_id)"

text \<open>
  The body of the \<open>try\<close> of \<open>Query.update\<close>, lines 514 to 607, in three parts. \<open>Inl\<close>
  is an exception, with the state it leaves behind; the handler of \<open>update\<close> turns it into
  \<open>False\<close>.

  Lines 545 to 607: schema encoding, tail RID, original key and row, then the writes.
\<close>

definition update_row ::
  "state \<Rightarrow> rid \<Rightarrow> page_data \<Rightarrow> rid \<Rightarrow> Record \<Rightarrow> Record \<Rightarrow> nat \<Rightarrow> page_data \<Rightarrow> int
   \<Rightarrow> int option list \<Rightarrow> string \<Rightarrow> (py_error \<times> state) + state" where
  "update_row s base_rid base_page_data latest_rid base_record current_record tail_page_idx
     tail_page_data primary_key columns timestamp =
     (case base_rid of (page_range_idx, page_idx, record_idx, page_type) \<Rightarrow>
        (case schema_loop (replicate (num_columns s) CHR ''0'') 0 columns of
           Inl e \<Rightarrow> Inl (e, s)
         | Inr schema_str \<Rightarrow>
             (let tail_rid = (page_range_idx, tail_page_idx, length (d_rid tail_page_data), T)
              in if length (rec_columns base_record) \<le> key s then Inl (IndexError, s)
                 else
                   (let original_key = rec_columns base_record ! key s;
                        row = tail_page_columns (num_columns s) (key s) original_key columns
                                (rec_columns current_record)
                    in case update_write s (B, page_range_idx, page_idx) base_page_data
                              record_idx page_range_idx tail_page_idx tail_page_data
                              latest_rid tail_rid schema_str timestamp row of
                         Inl es \<Rightarrow> Inl es
                       | Inr s1 \<Rightarrow>
                           Inr (update_commit s1 primary_key columns latest_rid tail_rid row
                                  (B, page_range_idx, page_idx)
                                  (T, page_range_idx, tail_page_idx))))))"

text \<open>Lines 523 to 543: the tail page that takes the record, and its view.\<close>

definition update_tail ::
  "state \<Rightarrow> rid \<Rightarrow> page_data \<Rightarrow> rid \<Rightarrow> Record \<Rightarrow> Record \<Rightarrow> int \<Rightarrow> int option list \<Rightarrow> string
   \<Rightarrow> (py_error \<times> state) + state" where
  "update_tail s base_rid base_page_data latest_rid base_record current_record primary_key
     columns timestamp =
     (case ensure_tail_page s (fst base_rid) of
        Inl e \<Rightarrow> Inl (e, s)
      | Inr s1 \<Rightarrow>
          (let tail_page_idx = length (tail_pages (page_ranges s1 ! fst base_rid)) - 1
           in case get_page s1 (T, fst base_rid, tail_page_idx) of
                (tail_page_data, s2) \<Rightarrow>
                  update_row s2 base_rid base_page_data latest_rid base_record current_record
                    tail_page_idx tail_page_data primary_key columns timestamp))"

text \<open>Lines 514 to 521: page range, base page view, latest RID and current record.\<close>

definition update_try ::
  "state \<Rightarrow> rid \<Rightarrow> int \<Rightarrow> int option list \<Rightarrow> string \<Rightarrow> (py_error \<times> state) + state" where
  "update_try s base_rid primary_key columns timestamp =
     (case base_rid of (page_range_idx, page_idx, record_idx, page_type) \<Rightarrow>
        if length (page_ranges s) \<le> page_range_idx then Inl (IndexError, s)
        else
          (case get_page s (B, page_range_idx, page_idx) of
             (base_page_data, s1) \<Rightarrow>
               (case get_latest_version s1 base_rid of
                  (latest_rid, s2) \<Rightarrow>
                    (case map_of (page_directory s2) base_rid of
                       None \<Rightarrow> Inl (KeyError, s2)
                     | Some base_record \<Rightarrow>
                         update_tail s2 base_rid base_page_data latest_rid base_record
                           (case map_of (page_directory s2) latest_rid of
                              Some r \<Rightarrow> r | None \<Rightarrow> base_record)
                           primary_key columns timestamp))))"

text \<open>
  \<open>Query.update\<close>. The time stamp \<open>datetime.now()\<close> is an argument. The result is the
  returned boolean and the state.
\<close>

definition update :: "state \<Rightarrow> int \<Rightarrow> int option list \<Rightarrow> string \<Rightarrow> bool \<times> state" where
  "update s primary_key columns timestamp =
     (case index_locate s (key s) primary_key of
        [] \<Rightarrow> (False, s)
      | base_rid # rest \<Rightarrow>
          (case lock_guard s primary_key Update of
             None \<Rightarrow> (False, s)
           | Some s1 \<Rightarrow>
               (case update_try s1 base_rid primary_key columns timestamp of
                  Inl (e, s2) \<Rightarrow> (False, s2)
                | Inr s2 \<Rightarrow> (True, s2))))"

section \<open>Insert\<close>

text \<open>
  Modelled from the spec: \<open>Table.insert_record\<close> (\<open>lstore.table\<close> is not part of the
  sources). A new page range, holding one empty base page, is allocated when there is no
  page range or the last one has no base capacity; the record is appended to the last
  base page of the last page range, through the page object and through the buffer pool
  view, with no indirection; the RID \<open>(pr, bp, slot, base)\<close> enters the page directory
  with the record, and the index of every column that has one. The result is false on a
  failure: a row that has not one value per column, or a full page.
\<close>

definition new_page_range :: "nat \<Rightarrow> page_range" where
  "new_page_range n = \<lparr>base_pages = [empty_page n], tail_pages = []\<rparr>"

definition has_base_capacity :: "nat \<Rightarrow> nat \<Rightarrow> page_range \<Rightarrow> bool" where
  "has_base_capacity K M pr =
     (base_pages pr \<noteq> [] \<and> has_capacity K (last (base_pages pr)) = Inr True
      \<and> length (base_pages pr) < M)"

definition ensure_page_range :: "state \<Rightarrow> state" where
  "ensure_page_range s =
     (if page_ranges s = []
         \<or> \<not> has_base_capacity (PAGE_CAPACITY s) (RANGE_BASE_PAGES s) (last (page_ranges s))
      then s\<lparr>page_ranges := page_ranges s @ [new_page_range (num_columns s)]\<rparr>
      else s)"

definition page_append :: "page \<Rightarrow> int list \<Rightarrow> rid \<Rightarrow> string \<Rightarrow> string \<Rightarrow> pyref \<Rightarrow> page" where
  "page_append pg columns r timestamp schema ind =
     pg\<lparr>pages := map (\<lambda>(c, v). c @ [v]) (zip (pages pg) columns),
        p_rid := p_rid pg @ [r],
        p_start_time := p_start_time pg @ [timestamp],
        p_schema_encoding := p_schema_encoding pg @ [schema],
        p_indirection := p_indirection pg @ [ind],
        p_num_records := p_num_records pg + 1\<rparr>"

definition page_data_append ::
  "page_data \<Rightarrow> int list \<Rightarrow> rid \<Rightarrow> string \<Rightarrow> string \<Rightarrow> pyref \<Rightarrow> page_data" where
  "page_data_append d columns r timestamp schema ind =
     d\<lparr>d_columns := map (\<lambda>(c, v). c @ [v]) (zip (d_columns d) columns),
       d_rid := d_rid d @ [r],
       d_timestamp := d_timestamp d @ [timestamp],
       d_schema_encoding := d_schema_encoding d @ [schema],
       d_indirection := d_indirection d @ [ind]\<rparr>"

fun index_insert_all :: "state \<Rightarrow> nat \<Rightarrow> int list \<Rightarrow> rid \<Rightarrow> state" where
  "index_insert_all s c [] r = s"
| "index_insert_all s c (v # vs) r = index_insert_all (index_insert_col s c v r) (Suc c) vs r"

definition insert_record :: "state \<Rightarrow> string \<Rightarrow> string \<Rightarrow> int list \<Rightarrow> bool \<times> state" where
  "insert_record s timestamp schema columns =
     (if length columns \<noteq> num_columns s \<or> num_columns s \<le> key s then (False, s)
      else
        (let s1 = ensure_page_range s;
             pr = length (page_ranges s1) - 1;
             bp = length (base_pages (page_ranges s1 ! pr)) - 1;
             pg = base_pages (page_ranges s1 ! pr) ! bp
         in if has_capacity (PAGE_CAPACITY s1) pg \<noteq> Inr True then (False, s1)
            else
              (let slot = length (hd (pages pg));
                   r = (pr, bp, slot, B);
                   s2 = put_base_page s1 pr bp (page_append pg columns r timestamp schema PyNone);
                   (d, s3) = get_page s2 (B, pr, bp);
                   s4 = set_page s3 (B, pr, bp)
                          (page_data_append d columns r timestamp schema PyNone);
                   s5 = unpin_page s4 (B, pr, bp);
                   s6 = s5\<lparr>page_directory :=
                           dict_set (page_directory s5) r
                             (Record (Rid r) (columns ! key s5) columns)\<rparr>
               in (True, index_insert_all s6 0 columns r))))"

text \<open>
  \<open>Query.insert\<close>. The key is read from the columns before the \<open>try\<close>: \<open>Inl\<close> is the
  exception that reaches the caller.
\<close>

definition insert :: "state \<Rightarrow> int list \<Rightarrow> string \<Rightarrow> py_error + (bool \<times> state)" where
  "insert s columns timestamp =
     (if length columns \<le> key s then Inl IndexError
      else
        (let k = columns ! key s
         in case lock_guard s k Insert of
              None \<Rightarrow> Inr (False, s)
            | Some s1 \<Rightarrow>
                if index_locate s1 (key s1) k \<noteq> [] then Inr (False, s1)
                else Inr (insert_record s1 timestamp
                            (replicate (num_columns s1) CHR ''0'') columns)))"

section \<open>Delete\<close>

text \<open>The body of the \<open>try\<close> of \<open>Query.delete\<close>, lines 50 to 80.\<close>

definition delete_try :: "state \<Rightarrow> int \<Rightarrow> rid \<Rightarrow> bool \<times> state" where
  "delete_try s primary_key r =
     (case r of (page_range_idx, page_idx, record_idx, page_type) \<Rightarrow>
        if length (page_ranges s) \<le> page_range_idx then (False, s)
        else if length (base_pages (page_ranges s ! page_range_idx)) \<le> page_idx
        then (False, s)
        else
          (let base_page = base_pages (page_ranges s ! page_range_idx) ! page_idx
           in if length (p_indirection base_page) \<le> record_idx
              then (if map_of (page_directory s) r \<noteq> None
                    then (True, s\<lparr>page_directory := dict_del (page_directory s) r\<rparr>)
                    else (False, s))
              else
                (let s1 = put_base_page s page_range_idx page_idx
                            (base_page\<lparr>p_indirection :=
                               (p_indirection base_page)[record_idx := EmptyMark]\<rparr>);
                     s2 = (if map_of (page_directory s1) r \<noteq> None
                           then s1\<lparr>page_directory := dict_del (page_directory s1) r\<rparr>
                           else s1)
                 in (True, index_delete s2 primary_key r))))"

definition delete :: "state \<Rightarrow> int \<Rightarrow> bool \<times> state" where
  "delete s primary_key =
     (case index_locate s (key s) primary_key of
        [] \<Rightarrow> (False, s)
      | r # rest \<Rightarrow>
          (case lock_guard s primary_key Delete of
             None \<Rightarrow> (False, s)
           | Some s1 \<Rightarrow> delete_try s1 primary_key r))"

section \<open>Select version\<close>

text \<open>
  The loop of lines 235 to 239 (and 261 to 265, 274 to 278): the projected columns of a
  RID, read one by one, with 0 for a value that cannot be read.
\<close>

fun read_projection :: "state \<Rightarrow> rid \<Rightarrow> nat \<Rightarrow> int list \<Rightarrow> int list \<times> state" where
  "read_projection s r i [] = ([], s)"
| "read_projection s r i (flag # flags) =
     (if flag = 1
      then (case get_column_value s r i of
              (value, s1) \<Rightarrow>
                (case read_projection s1 r (Suc i) flags of
                   (vs, s2) \<Rightarrow> ((case value of None \<Rightarrow> 0 | Some v \<Rightarrow> v) # vs, s2)))
      else read_projection s r (Suc i) flags)"

text \<open>
  Lines 254 to 258: the projected columns of a record of the page directory. A projected
  column that the record does not have raises \<open>IndexError\<close>.
\<close>

fun record_projection :: "int list \<Rightarrow> nat \<Rightarrow> int list \<Rightarrow> py_error + int list" where
  "record_projection cols i [] = Inr []"
| "record_projection cols i (flag # flags) =
     (if flag = 1
      then (if i < length cols
            then (case record_projection cols (Suc i) flags of
                    Inl e \<Rightarrow> Inl e | Inr vs \<Rightarrow> Inr (cols ! i # vs))
            else Inl IndexError)
      else record_projection cols (Suc i) flags)"

text \<open>Lines 281 to 284: the columns of the record that the handler builds.\<close>

fun handler_projection :: "int \<Rightarrow> nat \<Rightarrow> nat \<Rightarrow> int list \<Rightarrow> int list" where
  "handler_projection search_key search_key_index i [] = []"
| "handler_projection search_key search_key_index i (flag # flags) =
     (if flag = 1
      then (if i = search_key_index then search_key else 0)
           # handler_projection search_key search_key_index (Suc i) flags
      else handler_projection search_key search_key_index (Suc i) flags)"

text \<open>
  Lines 246 to 250: the first tail RID of the page directory whose record has the search
  key.
\<close>

definition latest_tail_record :: "state \<Rightarrow> int \<Rightarrow> (rid \<times> Record) option" where
  "latest_tail_record s search_key =
     find (\<lambda>p. rec_key (snd p) = search_key \<and> snd (snd (snd (fst p))) = T) (page_directory s)"

text \<open>The three branches of the \<open>try\<close> of \<open>Query.select_version\<close>.\<close>

definition select_base_version ::
  "state \<Rightarrow> rid \<Rightarrow> int \<Rightarrow> int list \<Rightarrow> (py_error \<times> state) + (Record \<times> state)" where
  "select_base_version s base_rid search_key projected_columns_index =
     (case map_of (page_directory s) base_rid of
        Some r \<Rightarrow> Inr (r, s)
      | None \<Rightarrow>
          (case read_projection s base_rid 0 projected_columns_index of
             (vs, s1) \<Rightarrow> Inr (Record (Rid base_rid) search_key vs, s1)))"

definition select_latest_version ::
  "state \<Rightarrow> rid \<Rightarrow> int \<Rightarrow> int list \<Rightarrow> (py_error \<times> state) + (Record \<times> state)" where
  "select_latest_version s base_rid search_key projected_columns_index =
     (case safely_get_latest_version s base_rid of
        (target_rid, s1) \<Rightarrow>
          (case latest_tail_record s1 search_key of
             Some (prid, latest_record) \<Rightarrow>
               (case record_projection (rec_columns latest_record) 0 projected_columns_index of
                  Inl e \<Rightarrow> Inl (e, s1)
                | Inr vs \<Rightarrow> Inr (Record (Rid prid) search_key vs, s1))
           | None \<Rightarrow>
               (case read_projection s1 target_rid 0 projected_columns_index of
                  (vs, s2) \<Rightarrow> Inr (Record (Rid target_rid) search_key vs, s2))))"

text \<open>
  Lines 269 to 273: the RID that a relative version other than 0 and -1 resolves to.
\<close>

definition historical_target :: "state \<Rightarrow> rid \<Rightarrow> int \<Rightarrow> pyref \<times> state" where
  "historical_target s base_rid relative_version =
     (case safely_get_latest_version s base_rid of
        (latest_rid, s1) \<Rightarrow>
          (if latest_rid \<noteq> base_rid
           then safely_get_historical_version s1 latest_rid base_rid (nat \<bar>relative_version\<bar>)
           else Rid base_rid, s1))"

text \<open>
  Lines 274 to 279. \<open>_get_column_value\<close> unpacks its RID before its \<open>try\<close>: a target that
  is the tombstone raises \<open>ValueError\<close> at the first projected column.
\<close>

definition select_historical_version ::
  "state \<Rightarrow> rid \<Rightarrow> int \<Rightarrow> int list \<Rightarrow> int \<Rightarrow> (py_error \<times> state) + (Record \<times> state)" where
  "select_historical_version s base_rid search_key projected_columns_index relative_version =
     (case historical_target s base_rid relative_version of
        (Rid target_rid, s1) \<Rightarrow>
          (case read_projection s1 target_rid 0 projected_columns_index of
             (vs, s2) \<Rightarrow> Inr (Record (Rid target_rid) search_key vs, s2))
      | (other, s1) \<Rightarrow>
          if 1 \<in> set projected_columns_index then Inl (ValueError, s1)
          else Inr (Record other search_key [], s1))"

definition select_version_try ::
  "state \<Rightarrow> rid \<Rightarrow> int \<Rightarrow> int list \<Rightarrow> int \<Rightarrow> (py_error \<times> state) + (Record \<times> state)" where
  "select_version_try s base_rid search_key projected_columns_index relative_version =
     (if relative_version = - 1
      then select_base_version s base_rid search_key projected_columns_index
      else if relative_version = 0
      then select_latest_version s base_rid search_key projected_columns_index
      else select_historical_version s base_rid search_key projected_columns_index
             relative_version)"

text \<open>Lines 222 to 224: the first base RID, or the first RID when none is a base RID.\<close>

definition first_base_rid :: "rid list \<Rightarrow> rid" where
  "first_base_rid rids =
     (case filter (\<lambda>r. snd (snd (snd r)) = B) rids of b # bs \<Rightarrow> b | [] \<Rightarrow> hd rids)"

text \<open>\<open>Query.select_version\<close>: the returned list and the state.\<close>

definition select_version ::
  "state \<Rightarrow> int \<Rightarrow> nat \<Rightarrow> int list \<Rightarrow> int \<Rightarrow> Record list \<times> state" where
  "select_version s search_key search_key_index projected_columns_index relative_version =
     (let rids = index_locate s search_key_index search_key
      in if rids = [] then ([], s)
         else
           (let base_rid = first_base_rid rids
            in case select_version_try s base_rid search_key projected_columns_index
                      relative_version of
                 Inr (r, s1) \<Rightarrow> ([r], s1)
               | Inl (e, s1) \<Rightarrow>
                   ([Record (Rid base_rid) search_key
                       (handler_projection search_key search_key_index 0
                          projected_columns_index)], s1)))"

section \<open>Sum\<close>

text \<open>
  The body of the loop of \<open>Query.sum\<close>, lines 634 to 645, on the running total and the
  processed keys.
\<close>

definition sum_step :: "state \<Rightarrow> int \<Rightarrow> int \<Rightarrow> nat \<Rightarrow> rid \<Rightarrow> int \<times> int list \<Rightarrow> (int \<times> int list) \<times> state" where
  "sum_step s start_range end_range aggregate_column_index r acc =
     (case acc of (total_sum, processed_keys) \<Rightarrow>
        (case get_latest_version s r of
           (latest_rid, s1) \<Rightarrow>
             (case get_column_value s1 latest_rid (key s1) of
                (None, s2) \<Rightarrow> (acc, s2)
              | (Some key_value, s2) \<Rightarrow>
                  if key_value < start_range \<or> key_value > end_range
                     \<or> key_value \<in> set processed_keys
                  then (acc, s2)
                  else (case get_column_value s2 latest_rid aggregate_column_index of
                          (value, s3) \<Rightarrow>
                            ((total_sum + (case value of None \<Rightarrow> 0 | Some v \<Rightarrow> v),
                              key_value # processed_keys), s3)))))"

fun sum_loop :: "state \<Rightarrow> int \<Rightarrow> int \<Rightarrow> nat \<Rightarrow> rid list \<Rightarrow> int \<times> int list \<Rightarrow> int \<times> state" where
  "sum_loop s start_range end_range aggregate_column_index [] acc = (fst acc, s)"
| "sum_loop s start_range end_range aggregate_column_index (r # rids) acc =
     (case sum_step s start_range end_range aggregate_column_index r acc of
        (acc', s1) \<Rightarrow> sum_loop s1 start_range end_range aggregate_column_index rids acc')"

text \<open>\<open>Query.sum\<close> (named \<open>query_sum\<close>: \<open>sum\<close> is a constant of HOL).\<close>

definition query_sum :: "state \<Rightarrow> int \<Rightarrow> int \<Rightarrow> nat \<Rightarrow> sum_result \<times> state" where
  "query_sum s start_range end_range aggregate_column_index =
     (let rids = index_locate_range s start_range end_range (key s)
      in if rids = [] then (PyFalse, s)
         else (case sum_loop s start_range end_range aggregate_column_index rids (0, []) of
                 (total_sum, s1) \<Rightarrow> (PyInt total_sum, s1)))"

section \<open>The table of the scenarios\<close>

text \<open>
  A table of three columns with key column 0, as \<open>Database.create_table\<close> leaves it: an
  index on every column, nothing stored. The query has no transaction.
\<close>

definition empty_table :: state where
  "empty_table =
     \<lparr>num_columns = 3, key = 0, page_ranges = [], page_directory = [],
      indices = (\<lambda>c. if c < 3 then Some [] else None), merge_counter = 0,
      merge_scheduled = False, bp_pages = (\<lambda>p. None), pins = (\<lambda>p. 0), locks = [],
      transaction = None, PAGE_CAPACITY = 512, RANGE_BASE_PAGES = 16, MERGE_THRESHOLD = 512\<rparr>"

text \<open>The table after \<open>insert(100, 11, 12)\<close>.\<close>

definition st1 :: state where
  "st1 = empty_table
     \<lparr>page_ranges :=
        [\<lparr>base_pages =
            [\<lparr>pages = [[100], [11], [12]], p_rid = [(0, 0, 0, B)], p_start_time = [''t0''],
              p_schema_encoding = [''000''], p_indirection = [PyNone], p_num_records = 1\<rparr>],
          tail_pages = []\<rparr>],
      page_directory := [((0, 0, 0, B), Record (Rid (0, 0, 0, B)) 100 [100, 11, 12])],
      indices := (\<lambda>c. if c < 3 then Some [] else None)
                   (0 \<mapsto> [(100, [(0, 0, 0, B)])], 1 \<mapsto> [(11, [(0, 0, 0, B)])],
                    2 \<mapsto> [(12, [(0, 0, 0, B)])]),
      bp_pages := (\<lambda>p. None)((B, 0, 0) \<mapsto>
         \<lparr>d_columns = [[100], [11], [12]], d_rid = [(0, 0, 0, B)], d_timestamp = [''t0''],
          d_schema_encoding = [''000''], d_indirection = [PyNone]\<rparr>)\<rparr>"

text \<open>Then \<open>update(100, None, 22, None)\<close>.\<close>

definition st2 :: state where
  "st2 = st1
     \<lparr>page_ranges :=
        [\<lparr>base_pages =
            [\<lparr>pages = [[100], [11], [12]], p_rid = [(0, 0, 0, B)], p_start_time = [''t0''],
              p_schema_encoding = [''000''], p_indirection = [PyNone], p_num_records = 1\<rparr>],
          tail_pages =
            [\<lparr>pages = [[100], [22], [12]], p_rid = [(0, 0, 0, T)], p_start_time = [''t1''],
              p_schema_encoding = [''010''], p_indirection = [Rid (0, 0, 0, B)],
              p_num_records = 1\<rparr>]\<rparr>],
      page_directory :=
        [((0, 0, 0, B), Record (Rid (0, 0, 0, B)) 100 [100, 11, 12]),
         ((0, 0, 0, T), Record (Rid (0, 0, 0, T)) 100 [100, 22, 12])],
      merge_counter := 1,
      bp_pages := (\<lambda>p. None)
        ((B, 0, 0) \<mapsto>
           \<lparr>d_columns = [[100], [11], [12]], d_rid = [(0, 0, 0, B)], d_timestamp = [''t0''],
            d_schema_encoding = [''000''], d_indirection = [Rid (0, 0, 0, T)]\<rparr>,
         (T, 0, 0) \<mapsto>
           \<lparr>d_columns = [[100], [22], [12]], d_rid = [(0, 0, 0, T)], d_timestamp = [''t1''],
            d_schema_encoding = [''010''], d_indirection = [Rid (0, 0, 0, B)]\<rparr>)\<rparr>"

text \<open>After \<open>st2\<close>, \<open>update(100, None, 33, None)\<close>.\<close>

definition st3 :: state where
  "st3 = st2
     \<lparr>page_ranges :=
        [\<lparr>base_pages =
            [\<lparr>pages = [[100], [11], [12]], p_rid = [(0, 0, 0, B)], p_start_time = [''t0''],
              p_schema_encoding = [''000''], p_indirection = [PyNone], p_num_records = 1\<rparr>],
          tail_pages =
            [\<lparr>pages = [[100, 100], [22, 33], [12, 12]], p_rid = [(0, 0, 0, T), (0, 0, 1, T)],
              p_start_time = [''t1'', ''t2''], p_schema_encoding = [''010'', ''010''],
              p_indirection = [Rid (0, 0, 0, B), Rid (0, 0, 0, T)], p_num_records = 2\<rparr>]\<rparr>],
      page_directory :=
        [((0, 0, 0, B), Record (Rid (0, 0, 0, B)) 100 [100, 11, 12]),
         ((0, 0, 0, T), Record (Rid (0, 0, 0, T)) 100 [100, 22, 12]),
         ((0, 0, 1, T), Record (Rid (0, 0, 1, T)) 100 [100, 33, 12])],
      merge_counter := 2,
      bp_pages := (\<lambda>p. None)
        ((B, 0, 0) \<mapsto>
           \<lparr>d_columns = [[100], [11], [12]], d_rid = [(0, 0, 0, B)], d_timestamp = [''t0''],
            d_schema_encoding = [''000''], d_indirection = [Rid (0, 0, 1, T)]\<rparr>,
         (T, 0, 0) \<mapsto>
           \<lparr>d_columns = [[100, 100], [22, 33], [12, 12]], d_rid = [(0, 0, 0, T), (0, 0, 1, T)],
            d_timestamp = [''t1'', ''t2''], d_schema_encoding = [''010'', ''010''],
            d_indirection = [Rid (0, 0, 0, B), Rid (0, 0, 0, T)]\<rparr>)\<rparr>"

text \<open>Then \<open>update(100, None, 44, None)\<close>: the table of scenario S3.\<close>

definition st4 :: state where
  "st4 = st3
     \<lparr>page_ranges :=
        [\<lparr>base_pages =
            [\<lparr>pages = [[100], [11], [12]], p_rid = [(0, 0, 0, B)], p_start_time = [''t0''],
              p_schema_encoding = [''000''], p_indirection = [PyNone], p_num_records = 1\<rparr>],
          tail_pages =
            [\<lparr>pages = [[100, 100, 100], [22, 33, 44], [12, 12, 12]],
              p_rid = [(0, 0, 0, T), (0, 0, 1, T), (0, 0, 2, T)],
              p_start_time = [''t1'', ''t2'', ''t3''],
              p_schema_encoding = [''010'', ''010'', ''010''],
              p_indirection = [Rid (0, 0, 0, B), Rid (0, 0, 0, T), Rid (0, 0, 1, T)],
              p_num_records = 3\<rparr>]\<rparr>],
      page_directory :=
        [((0, 0, 0, B), Record (Rid (0, 0, 0, B)) 100 [100, 11, 12]),
         ((0, 0, 0, T), Record (Rid (0, 0, 0, T)) 100 [100, 22, 12]),
         ((0, 0, 1, T), Record (Rid (0, 0, 1, T)) 100 [100, 33, 12]),
         ((0, 0, 2, T), Record (Rid (0, 0, 2, T)) 100 [100, 44, 12])],
      merge_counter := 3,
      bp_pages := (\<lambda>p. None)
        ((B, 0, 0) \<mapsto>
           \<lparr>d_columns = [[100], [11], [12]], d_rid = [(0, 0, 0, B)], d_timestamp = [''t0''],
            d_schema_encoding = [''000''], d_indirection = [Rid (0, 0, 2, T)]\<rparr>,
         (T, 0, 0) \<mapsto>
           \<lparr>d_columns = [[100, 100, 100], [22, 33, 44], [12, 12, 12]],
            d_rid = [(0, 0, 0, T), (0, 0, 1, T), (0, 0, 2, T)],
            d_timestamp = [''t1'', ''t2'', ''t3''],
            d_schema_encoding = [''010'', ''010'', ''010''],
            d_indirection = [Rid (0, 0, 0, B), Rid (0, 0, 0, T), Rid (0, 0, 1, T)]\<rparr>)\<rparr>"

text \<open>After \<open>insert(100, 11, 12)\<close>, the key-changing \<open>update(100, 200, None, None)\<close>.\<close>

definition st_k1 :: state where
  "st_k1 = st1
     \<lparr>page_ranges :=
        [\<lparr>base_pages =
            [\<lparr>pages = [[100], [11], [12]], p_rid = [(0, 0, 0, B)], p_start_time = [''t0''],
              p_schema_encoding = [''000''], p_indirection = [PyNone], p_num_records = 1\<rparr>],
          tail_pages =
            [\<lparr>pages = [[100], [11], [12]], p_rid = [(0, 0, 0, T)], p_start_time = [''t1''],
              p_schema_encoding = [''100''], p_indirection = [Rid (0, 0, 0, B)],
              p_num_records = 1\<rparr>]\<rparr>],
      page_directory := [((0, 0, 0, T), Record (Rid (0, 0, 0, T)) 100 [100, 11, 12])],
      indices := (\<lambda>c. if c < 3 then Some [] else None)
                   (0 \<mapsto> [(200, [(0, 0, 0, T)])], 1 \<mapsto> [(11, [(0, 0, 0, B)])],
                    2 \<mapsto> [(12, [(0, 0, 0, B)])]),
      merge_counter := 1,
      bp_pages := (\<lambda>p. None)
        ((B, 0, 0) \<mapsto>
           \<lparr>d_columns = [[100], [11], [12]], d_rid = [(0, 0, 0, B)], d_timestamp = [''t0''],
            d_schema_encoding = [''000''], d_indirection = [Rid (0, 0, 0, T)]\<rparr>,
         (T, 0, 0) \<mapsto>
           \<lparr>d_columns = [[100], [11], [12]], d_rid = [(0, 0, 0, T)], d_timestamp = [''t1''],
            d_schema_encoding = [''100''], d_indirection = [Rid (0, 0, 0, B)]\<rparr>)\<rparr>"

text \<open>After \<open>insert(100, 11, 12)\<close>, the update \<open>update(100, 100, 22, 12)\<close> of every column.\<close>

definition st2_full :: state where
  "st2_full = st1
     \<lparr>page_ranges :=
        [\<lparr>base_pages =
            [\<lparr>pages = [[100], [11], [12]], p_rid = [(0, 0, 0, B)], p_start_time = [''t0''],
              p_schema_encoding = [''000''], p_indirection = [PyNone], p_num_records = 1\<rparr>],
          tail_pages =
            [\<lparr>pages = [[100], [22], [12]], p_rid = [(0, 0, 0, T)], p_start_time = [''t1''],
              p_schema_encoding = [''111''], p_indirection = [Rid (0, 0, 0, B)],
              p_num_records = 1\<rparr>]\<rparr>],
      page_directory :=
        [((0, 0, 0, B), Record (Rid (0, 0, 0, B)) 100 [100, 11, 12]),
         ((0, 0, 0, T), Record (Rid (0, 0, 0, T)) 100 [100, 22, 12])],
      merge_counter := 1,
      bp_pages := (\<lambda>p. None)
        ((B, 0, 0) \<mapsto>
           \<lparr>d_columns = [[100], [11], [12]], d_rid = [(0, 0, 0, B)], d_timestamp = [''t0''],
            d_schema_encoding = [''000''], d_indirection = [Rid (0, 0, 0, T)]\<rparr>,
         (T, 0, 0) \<mapsto>
           \<lparr>d_columns = [[100], [22], [12]], d_rid = [(0, 0, 0, T)], d_timestamp = [''t1''],
            d_schema_encoding = [''111''], d_indirection = [Rid (0, 0, 0, B)]\<rparr>)\<rparr>"

text \<open>Then a second key-changing update, \<open>update(200, 300, None, None)\<close>.\<close>

definition st_k2 :: state where
  "st_k2 = st_k1
     \<lparr>page_ranges :=
        [\<lparr>base_pages =
            [\<lparr>pages = [[100], [11], [12]], p_rid = [(0, 0, 0, B)], p_start_time = [''t0''],
              p_schema_encoding = [''000''], p_indirection = [PyNone], p_num_records = 1\<rparr>],
          tail_pages =
            [\<lparr>pages = [[100, 100], [11, 11], [12, 12]], p_rid = [(0, 0, 0, T), (0, 0, 1, T)],
              p_start_time = [''t1'', ''t2''], p_schema_encoding = [''100'', ''100''],
              p_indirection = [Rid (0, 0, 0, B), Rid (0, 0, 0, T)], p_num_records = 2\<rparr>]\<rparr>],
      page_directory := [((0, 0, 1, T), Record (Rid (0, 0, 1, T)) 200 [100, 11, 12])],
      indices := (\<lambda>c. if c < 3 then Some [] else None)
                   (0 \<mapsto> [(300, [(0, 0, 1, T)])], 1 \<mapsto> [(11, [(0, 0, 0, B)])],
                    2 \<mapsto> [(12, [(0, 0, 0, B)])]),
      merge_counter := 2,
      bp_pages := (\<lambda>p. None)
        ((B, 0, 0) \<mapsto>
           \<lparr>d_columns = [[100], [11], [12]], d_rid = [(0, 0, 0, B)], d_timestamp = [''t0''],
            d_schema_encoding = [''000''], d_indirection = [Rid (0, 0, 1, T)]\<rparr>,
         (T, 0, 0) \<mapsto>
           \<lparr>d_columns = [[100, 100], [11, 11], [12, 12]], d_rid = [(0, 0, 0, T), (0, 0, 1, T)],
            d_timestamp = [''t1'', ''t2''], d_schema_encoding = [''100'', ''100''],
            d_indirection = [Rid (0, 0, 0, B), Rid (0, 0, 0, T)]\<rparr>)\<rparr>"

text \<open>
  Scenario S5: a table of two columns with key column 0; the keys 1 to 5 are inserted with
  10 in column 1, then \<open>update(3, None, 99)\<close>.
\<close>

definition empty_table2 :: state where
  "empty_table2 =
     \<lparr>num_columns = 2, key = 0, page_ranges = [], page_directory = [],
      indices = (\<lambda>c. if c < 2 then Some [] else None), merge_counter = 0,
      merge_scheduled = False, bp_pages = (\<lambda>p. None), pins = (\<lambda>p. 0), locks = [],
      transaction = None, PAGE_CAPACITY = 512, RANGE_BASE_PAGES = 16, MERGE_THRESHOLD = 512\<rparr>"

text \<open>The inserts of a scenario, one after the other.\<close>

fun insert_all :: "state \<Rightarrow> int list list \<Rightarrow> state" where
  "insert_all s [] = s"
| "insert_all s (r # rs) = (case insert s r ''t'' of Inr (b, s') \<Rightarrow> insert_all s' rs | Inl e \<Rightarrow> s)"

definition sum_table :: state where
  "sum_table = empty_table2
     \<lparr>page_ranges :=
        [\<lparr>base_pages =
            [\<lparr>pages = [[1, 2, 3, 4, 5], [10, 10, 10, 10, 10]],
              p_rid = [(0, 0, 0, B), (0, 0, 1, B), (0, 0, 2, B), (0, 0, 3, B), (0, 0, 4, B)],
              p_start_time = [''t'', ''t'', ''t'', ''t'', ''t''],
              p_schema_encoding = [''00'', ''00'', ''00'', ''00'', ''00''],
              p_indirection = [PyNone, PyNone, PyNone, PyNone, PyNone],
              p_num_records = 5\<rparr>],
          tail_pages =
            [\<lparr>pages = [[3], [99]], p_rid = [(0, 0, 0, T)], p_start_time = [''u''],
              p_schema_encoding = [''01''], p_indirection = [Rid (0, 0, 2, B)],
              p_num_records = 1\<rparr>]\<rparr>],
      page_directory :=
        [((0, 0, 0, B), Record (Rid (0, 0, 0, B)) 1 [1, 10]),
         ((0, 0, 1, B), Record (Rid (0, 0, 1, B)) 2 [2, 10]),
         ((0, 0, 2, B), Record (Rid (0, 0, 2, B)) 3 [3, 10]),
         ((0, 0, 3, B), Record (Rid (0, 0, 3, B)) 4 [4, 10]),
         ((0, 0, 4, B), Record (Rid (0, 0, 4, B)) 5 [5, 10]),
         ((0, 0, 0, T), Record (Rid (0, 0, 0, T)) 3 [3, 99])],
      indices := (\<lambda>c. if c < 2 then Some [] else None)
         (0 \<mapsto> [(1, [(0, 0, 0, B)]), (2, [(0, 0, 1, B)]), (3, [(0, 0, 2, B)]),
                (4, [(0, 0, 3, B)]), (5, [(0, 0, 4, B)])],
          1 \<mapsto> [(10, [(0, 0, 0, B), (0, 0, 1, B), (0, 0, 2, B), (0, 0, 3, B), (0, 0, 4, B)])]),
      merge_counter := 1,
      bp_pages := (\<lambda>p. None)
        ((B, 0, 0) \<mapsto>
           \<lparr>d_columns = [[1, 2, 3, 4, 5], [10, 10, 10, 10, 10]],
            d_rid = [(0, 0, 0, B), (0, 0, 1, B), (0, 0, 2, B), (0, 0, 3, B), (0, 0, 4, B)],
            d_timestamp = [''t'', ''t'', ''t'', ''t'', ''t''],
            d_schema_encoding = [''00'', ''00'', ''00'', ''00'', ''00''],
            d_indirection = [PyNone, PyNone, Rid (0, 0, 0, T), PyNone, PyNone]\<rparr>,
         (T, 0, 0) \<mapsto>
           \<lparr>d_columns = [[3], [99]], d_rid = [(0, 0, 0, T)], d_timestamp = [''u''],
            d_schema_encoding = [''01''], d_indirection = [Rid (0, 0, 2, B)]\<rparr>)\<rparr>"

text \<open>
  A record that is given a new key. The table after \<open>insert(1, 10, 0)\<close> and
  \<open>insert(2, 20, 0)\<close>: the record with key 2 has the base RID \<open>(0, 0, 1, 'b')\<close>.
\<close>

definition rk1 :: state where
  "rk1 = empty_table
     \<lparr>page_ranges :=
        [\<lparr>base_pages =
            [\<lparr>pages = [[1, 2], [10, 20], [0, 0]], p_rid = [(0, 0, 0, B), (0, 0, 1, B)],
              p_start_time = [''t'', ''t''], p_schema_encoding = [''000'', ''000''],
              p_indirection = [PyNone, PyNone], p_num_records = 2\<rparr>],
          tail_pages = []\<rparr>],
      page_directory :=
        [((0, 0, 0, B), Record (Rid (0, 0, 0, B)) 1 [1, 10, 0]),
         ((0, 0, 1, B), Record (Rid (0, 0, 1, B)) 2 [2, 20, 0])],
      indices := (\<lambda>c. if c < 3 then Some [] else None)
         (0 \<mapsto> [(1, [(0, 0, 0, B)]), (2, [(0, 0, 1, B)])],
          1 \<mapsto> [(10, [(0, 0, 0, B)]), (20, [(0, 0, 1, B)])],
          2 \<mapsto> [(0, [(0, 0, 0, B), (0, 0, 1, B)])]),
      bp_pages := (\<lambda>p. None)
        ((B, 0, 0) \<mapsto>
           \<lparr>d_columns = [[1, 2], [10, 20], [0, 0]], d_rid = [(0, 0, 0, B), (0, 0, 1, B)],
            d_timestamp = [''t'', ''t''], d_schema_encoding = [''000'', ''000''],
            d_indirection = [PyNone, PyNone]\<rparr>)\<rparr>"

text \<open>
  Then \<open>update(2, 7, None, None)\<close>: the key index holds the tail RID \<open>(0, 0, 0, 't')\<close>
  for the new key 7.
\<close>

definition rk2 :: state where
  "rk2 = rk1
     \<lparr>page_ranges :=
        [\<lparr>base_pages =
            [\<lparr>pages = [[1, 2], [10, 20], [0, 0]], p_rid = [(0, 0, 0, B), (0, 0, 1, B)],
              p_start_time = [''t'', ''t''], p_schema_encoding = [''000'', ''000''],
              p_indirection = [PyNone, PyNone], p_num_records = 2\<rparr>],
          tail_pages =
            [\<lparr>pages = [[2], [20], [0]], p_rid = [(0, 0, 0, T)], p_start_time = [''u1''],
              p_schema_encoding = [''100''], p_indirection = [Rid (0, 0, 1, B)],
              p_num_records = 1\<rparr>]\<rparr>],
      page_directory :=
        [((0, 0, 0, B), Record (Rid (0, 0, 0, B)) 1 [1, 10, 0]),
         ((0, 0, 0, T), Record (Rid (0, 0, 0, T)) 2 [2, 20, 0])],
      indices := (\<lambda>c. if c < 3 then Some [] else None)
         (0 \<mapsto> [(1, [(0, 0, 0, B)]), (7, [(0, 0, 0, T)])],
          1 \<mapsto> [(10, [(0, 0, 0, B)]), (20, [(0, 0, 1, B)])],
          2 \<mapsto> [(0, [(0, 0, 0, B), (0, 0, 1, B)])]),
      merge_counter := 1,
      bp_pages := (\<lambda>p. None)
        ((B, 0, 0) \<mapsto>
           \<lparr>d_columns = [[1, 2], [10, 20], [0, 0]], d_rid = [(0, 0, 0, B), (0, 0, 1, B)],
            d_timestamp = [''t'', ''t''], d_schema_encoding = [''000'', ''000''],
            d_indirection = [PyNone, Rid (0, 0, 0, T)]\<rparr>,
         (T, 0, 0) \<mapsto>
           \<lparr>d_columns = [[2], [20], [0]], d_rid = [(0, 0, 0, T)], d_timestamp = [''u1''],
            d_schema_encoding = [''100''], d_indirection = [Rid (0, 0, 1, B)]\<rparr>)\<rparr>"

text \<open>Then \<open>update(1, None, 11, None)\<close>, an update of the other record.\<close>

definition rk3 :: state where
  "rk3 = rk2
     \<lparr>page_ranges :=
        [\<lparr>base_pages =
            [\<lparr>pages = [[1, 2], [10, 20], [0, 0]], p_rid = [(0, 0, 0, B), (0, 0, 1, B)],
              p_start_time = [''t'', ''t''], p_schema_encoding = [''000'', ''000''],
              p_indirection = [PyNone, PyNone], p_num_records = 2\<rparr>],
          tail_pages =
            [\<lparr>pages = [[2, 1], [20, 11], [0, 0]], p_rid = [(0, 0, 0, T), (0, 0, 1, T)],
              p_start_time = [''u1'', ''u2''], p_schema_encoding = [''100'', ''010''],
              p_indirection = [Rid (0, 0, 1, B), Rid (0, 0, 0, B)], p_num_records = 2\<rparr>]\<rparr>],
      page_directory :=
        [((0, 0, 0, B), Record (Rid (0, 0, 0, B)) 1 [1, 10, 0]),
         ((0, 0, 0, T), Record (Rid (0, 0, 0, T)) 2 [2, 20, 0]),
         ((0, 0, 1, T), Record (Rid (0, 0, 1, T)) 1 [1, 11, 0])],
      merge_counter := 2,
      bp_pages := (\<lambda>p. None)
        ((B, 0, 0) \<mapsto>
           \<lparr>d_columns = [[1, 2], [10, 20], [0, 0]], d_rid = [(0, 0, 0, B), (0, 0, 1, B)],
            d_timestamp = [''t'', ''t''], d_schema_encoding = [''000'', ''000''],
            d_indirection = [Rid (0, 0, 1, T), Rid (0, 0, 0, T)]\<rparr>,
         (T, 0, 0) \<mapsto>
           \<lparr>d_columns = [[2, 1], [20, 11], [0, 0]], d_rid = [(0, 0, 0, T), (0, 0, 1, T)],
            d_timestamp = [''u1'', ''u2''], d_schema_encoding = [''100'', ''010''],
            d_indirection = [Rid (0, 0, 1, B), Rid (0, 0, 0, B)]\<rparr>)\<rparr>"

text \<open>Then \<open>update(7, None, None, 5)\<close>, an update of the record with the new key.\<close>

definition rk4 :: state where
  "rk4 = rk3
     \<lparr>page_ranges :=
        [\<lparr>base_pages =
            [\<lparr>pages = [[1, 2], [10, 20], [0, 0]], p_rid = [(0, 0, 0, B), (0, 0, 1, B)],
              p_start_time = [''t'', ''t''], p_schema_encoding = [''000'', ''000''],
              p_indirection = [PyNone, PyNone], p_num_records = 2\<rparr>],
          tail_pages =
            [\<lparr>pages = [[2, 1, 2], [20, 11, 11], [0, 0, 5]],
              p_rid = [(0, 0, 0, T), (0, 0, 1, T), (0, 0, 2, T)],
              p_start_time = [''u1'', ''u2'', ''u3''],
              p_schema_encoding = [''100'', ''010'', ''001''],
              p_indirection = [Rid (0, 0, 1, B), Rid (0, 0, 0, B), Rid (0, 0, 1, T)],
              p_num_records = 3\<rparr>]\<rparr>],
      page_directory :=
        [((0, 0, 0, B), Record (Rid (0, 0, 0, B)) 1 [1, 10, 0]),
         ((0, 0, 0, T), Record (Rid (0, 0, 0, T)) 2 [2, 20, 0]),
         ((0, 0, 1, T), Record (Rid (0, 0, 1, T)) 1 [1, 11, 0]),
         ((0, 0, 2, T), Record (Rid (0, 0, 2, T)) 7 [2, 11, 5])],
      merge_counter := 3,
      bp_pages := (\<lambda>p. None)
        ((B, 0, 0) \<mapsto>
           \<lparr>d_columns = [[1, 2], [10, 20], [0, 0]], d_rid = [(0, 0, 0, B), (0, 0, 1, B)],
            d_timestamp = [''t'', ''t''], d_schema_encoding = [''000'', ''000''],
            d_indirection = [Rid (0, 0, 2, T), Rid (0, 0, 0, T)]\<rparr>,
         (T, 0, 0) \<mapsto>
           \<lparr>d_columns = [[2, 1, 2], [20, 11, 11], [0, 0, 5]],
            d_rid = [(0, 0, 0, T), (0, 0, 1, T), (0, 0, 2, T)],
            d_timestamp = [''u1'', ''u2'', ''u3''],
            d_schema_encoding = [''100'', ''010'', ''001''],
            d_indirection = [Rid (0, 0, 1, B), Rid (0, 0, 0, B), Rid (0, 0, 1, T)]\<rparr>)\<rparr>"

text \<open>
  Two records with the same value in column 1. The table after \<open>insert(1, 2, 0)\<close>,
  \<open>insert(2, 2, 0)\<close> and \<open>update(2, None, None, 5)\<close>: the index of column 1 holds both
  base RIDs under the value 2.
\<close>

definition sel_table :: state where
  "sel_table = empty_table
     \<lparr>page_ranges :=
        [\<lparr>base_pages =
            [\<lparr>pages = [[1, 2], [2, 2], [0, 0]], p_rid = [(0, 0, 0, B), (0, 0, 1, B)],
              p_start_time = [''t'', ''t''], p_schema_encoding = [''000'', ''000''],
              p_indirection = [PyNone, PyNone], p_num_records = 2\<rparr>],
          tail_pages =
            [\<lparr>pages = [[2], [2], [5]], p_rid = [(0, 0, 0, T)], p_start_time = [''u''],
              p_schema_encoding = [''001''], p_indirection = [Rid (0, 0, 1, B)],
              p_num_records = 1\<rparr>]\<rparr>],
      page_directory :=
        [((0, 0, 0, B), Record (Rid (0, 0, 0, B)) 1 [1, 2, 0]),
         ((0, 0, 1, B), Record (Rid (0, 0, 1, B)) 2 [2, 2, 0]),
         ((0, 0, 0, T), Record (Rid (0, 0, 0, T)) 2 [2, 2, 5])],
      indices := (\<lambda>c. if c < 3 then Some [] else None)
         (0 \<mapsto> [(1, [(0, 0, 0, B)]), (2, [(0, 0, 1, B)])],
          1 \<mapsto> [(2, [(0, 0, 0, B), (0, 0, 1, B)])],
          2 \<mapsto> [(0, [(0, 0, 0, B), (0, 0, 1, B)])]),
      merge_counter := 1,
      bp_pages := (\<lambda>p. None)
        ((B, 0, 0) \<mapsto>
           \<lparr>d_columns = [[1, 2], [2, 2], [0, 0]], d_rid = [(0, 0, 0, B), (0, 0, 1, B)],
            d_timestamp = [''t'', ''t''], d_schema_encoding = [''000'', ''000''],
            d_indirection = [PyNone, Rid (0, 0, 0, T)]\<rparr>,
         (T, 0, 0) \<mapsto>
           \<lparr>d_columns = [[2], [2], [5]], d_rid = [(0, 0, 0, T)], d_timestamp = [''u''],
            d_schema_encoding = [''001''], d_indirection = [Rid (0, 0, 1, B)]\<rparr>)\<rparr>"

text \<open>
  The same table with an index of column 1 that holds a tail RID before the two base RIDs
  under the value 2.
\<close>

definition sel_table_tail_first :: state where
  "sel_table_tail_first = sel_table
     \<lparr>indices := (indices sel_table)(1 \<mapsto> [(2, [(0, 0, 0, T), (0, 0, 1, B), (0, 0, 0, B)])])\<rparr>"

section \<open>The claims in the words of the specification\<close>

text \<open>
  The row of a tail record as the specification builds it: for each column the supplied
  value when it is not null; else, for the primary key column, the original base key;
  else the value inherited from the prior latest image.
\<close>

definition claimed_tail_page_column ::
  "nat \<Rightarrow> int \<Rightarrow> int option list \<Rightarrow> int list \<Rightarrow> nat \<Rightarrow> int" where
  "claimed_tail_page_column k original_key columns current_columns i =
     (if i < length columns \<and> columns ! i \<noteq> None then the (columns ! i)
      else if i = k then original_key
      else if i < length current_columns then current_columns ! i else 0)"

text \<open>
  The latest version of the record that a located RID belongs to. The base RID of the
  record is the located RID when that is a base RID; a tail RID is followed along the
  indirection of the tail records, each of which holds the version before it, until a
  base RID is reached (the steps are bounded by the number of tail records). The latest
  version is the forward pointer in the base slot of that base RID, or the base RID
  itself when the slot holds no RID.
\<close>

definition tail_predecessor :: "state \<Rightarrow> rid \<Rightarrow> rid option" where
  "tail_predecessor s r =
     (case r of (pr, pg, slot, k) \<Rightarrow>
        (let ind = d_indirection (page_view s (T, pr, pg))
         in if slot < length ind
            then (case ind ! slot of Rid p \<Rightarrow> Some p | PyNone \<Rightarrow> None | EmptyMark \<Rightarrow> None)
            else None))"

fun record_base :: "nat \<Rightarrow> state \<Rightarrow> rid \<Rightarrow> rid" where
  "record_base 0 s r = r"
| "record_base (Suc n) s r =
     (if snd (snd (snd r)) = B then r
      else (case tail_predecessor s r of Some p \<Rightarrow> record_base n s p | None \<Rightarrow> r))"

definition tail_record_count :: "state \<Rightarrow> nat" where
  "tail_record_count s =
     sum_list (map (\<lambda>pr. sum_list (map (\<lambda>p. length (p_rid p)) (tail_pages pr)))
                 (page_ranges s))"

definition forward_pointer :: "state \<Rightarrow> rid \<Rightarrow> rid" where
  "forward_pointer s b =
     (case b of (pr, pg, slot, k) \<Rightarrow>
        (let ind = d_indirection (page_view s (B, pr, pg))
         in if slot < length ind
            then (case ind ! slot of Rid t \<Rightarrow> t | PyNone \<Rightarrow> b | EmptyMark \<Rightarrow> b)
            else b))"

definition record_latest :: "state \<Rightarrow> rid \<Rightarrow> rid" where
  "record_latest s r =
     (let b = record_base (Suc (tail_record_count s)) s r
      in if snd (snd (snd b)) = B then forward_pointer s b else b)"

text \<open>
  The sum as the specification words it. Each located RID gives an entry: the key column
  and the aggregate column of the latest version of its record, a null aggregate value
  counting as 0; it gives none when the key cannot be read or lies outside \<open>[lo, hi]\<close>.
  The entries are deduplicated by key, the first entry of a key staying, and the values
  are added up.
\<close>

definition sum_entry :: "state \<Rightarrow> int \<Rightarrow> int \<Rightarrow> nat \<Rightarrow> rid \<Rightarrow> (int \<times> int) option" where
  "sum_entry s lo hi agg r =
     (let latest = record_latest s r
      in case fst (get_column_value s latest (key s)) of
           None \<Rightarrow> None
         | Some k \<Rightarrow>
             if lo \<le> k \<and> k \<le> hi
             then Some (k, case fst (get_column_value s latest agg) of None \<Rightarrow> 0 | Some v \<Rightarrow> v)
             else None)"

fun distinct_by_key :: "(int \<times> int) list \<Rightarrow> (int \<times> int) list" where
  "distinct_by_key [] = []"
| "distinct_by_key (p # ps) = p # filter (\<lambda>q. fst q \<noteq> fst p) (distinct_by_key ps)"

definition claimed_sum :: "state \<Rightarrow> int \<Rightarrow> int \<Rightarrow> nat \<Rightarrow> rid list \<Rightarrow> int" where
  "claimed_sum s lo hi agg rids =
     sum_list (map snd (distinct_by_key (List.map_filter (sum_entry s lo hi agg) rids)))"

section \<open>Reads leave the buffer pool as it was\<close>

lemma unpin_pin_page [simp]: "unpin_page (pin_page s pid) pid = s"
  by (simp add: pin_page_def unpin_page_def)

lemma get_latest_version_state [simp]: "snd (get_latest_version s r) = s"
  by (cases r) (simp add: get_latest_version_def get_page_def Let_def split_beta)

lemma get_column_value_state [simp]: "snd (get_column_value s r c) = s"
  by (cases r) (simp add: get_column_value_def get_page_def Let_def split_beta)

lemma safely_get_latest_version_step_state:
  "safely_get_latest_version_step s visited current = Inl (res, s') \<Longrightarrow> s' = s"
  "safely_get_latest_version_step s visited current = Inr (s', v', c') \<Longrightarrow> s' = s"
  by (cases current; auto simp: safely_get_latest_version_step_def get_page_def Let_def
        split: if_splits pyref.splits)+

lemma safely_get_latest_version_loop_state [simp]:
  "snd (safely_get_latest_version_loop n s r visited current) = s"
proof (induction n arbitrary: visited current)
  case 0
  show ?case by simp
next
  case (Suc n)
  show ?case
  proof (cases "safely_get_latest_version_step s visited current")
    case (Inl res)
    then show ?thesis
      using safely_get_latest_version_step_state(1)[of s visited current "fst res" "snd res"]
      by simp
  next
    case (Inr c)
    obtain s' v' c' where c: "c = (s', v', c')" by (cases c) auto
    with Inr have "s' = s" using safely_get_latest_version_step_state(2) by blast
    with Inr c Suc.IH show ?thesis by simp
  qed
qed

lemma safely_get_latest_version_state [simp]: "snd (safely_get_latest_version s r) = s"
  by (simp add: safely_get_latest_version_def)

lemma read_projection_state [simp]: "snd (read_projection s r i flags) = s"
proof (induction flags arbitrary: i)
  case Nil
  show ?case by simp
next
  case (Cons flag flags)
  obtain v where g: "get_column_value s r i = (v, s)"
    by (metis get_column_value_state prod.collapse)
  obtain vs where p: "read_projection s r (Suc i) flags = (vs, s)"
    by (metis Cons.IH prod.collapse)
  show ?case by (simp add: g p Cons.IH)
qed

section \<open>What each step of an update changes\<close>

lemma page_view_simps [simp]:
  "page_view (s\<lparr>pins := p\<rparr>) = page_view s"
  "page_view (s\<lparr>page_ranges := r\<rparr>) = page_view s"
  "page_view (s\<lparr>page_directory := d\<rparr>) = page_view s"
  "page_view (s\<lparr>indices := i\<rparr>) = page_view s"
  "page_view (s\<lparr>merge_counter := m\<rparr>) = page_view s"
  "page_view (s\<lparr>merge_scheduled := ms\<rparr>) = page_view s"
  "page_view (s\<lparr>locks := l\<rparr>) = page_view s"
  "page_view (s\<lparr>transaction := t\<rparr>) = page_view s"
  by (simp_all add: page_view_def fun_eq_iff split: option.splits)

lemma page_view_set_page [simp]:
  "page_view (set_page s pid d) q = (if q = pid then d else page_view s q)"
  by (simp add: page_view_def set_page_def split: option.splits)

lemma page_view_pin_page [simp]: "page_view (pin_page s pid) = page_view s"
  by (simp add: pin_page_def)

lemma page_view_unpin [simp]: "page_view (unpin_page s pid) = page_view s"
  by (simp add: unpin_page_def)

lemma page_view_put_page_range [simp]: "page_view (put_page_range s i r) = page_view s"
  by (simp add: put_page_range_def)

lemma page_view_put_tail_page [simp]: "page_view (put_tail_page s i j p) = page_view s"
  by (simp add: put_tail_page_def)

lemma page_view_index [simp]:
  "page_view (index_insert s v r) = page_view s"
  "page_view (index_delete s v r) = page_view s"
  by (auto simp: index_insert_def index_delete_def index_insert_col_def index_delete_col_def Let_def
      split: option.splits)

lemma page_view_update_commit [simp]:
  "page_view (update_commit s pk cols l t row b tp) = page_view s"
  by (simp add: update_commit_def update_finish_def update_key_change_def trigger_merge_def Let_def)

lemma page_ranges_index [simp]:
  "page_ranges (index_insert s v r) = page_ranges s"
  "page_ranges (index_delete s v r) = page_ranges s"
  by (auto simp: index_insert_def index_delete_def index_insert_col_def index_delete_col_def Let_def
      split: option.splits)

lemma page_ranges_simps [simp]:
  "page_ranges (pin_page s pid) = page_ranges s"
  "page_ranges (unpin_page s pid) = page_ranges s"
  "page_ranges (set_page s pid d) = page_ranges s"
  by (simp_all add: pin_page_def unpin_page_def set_page_def)

lemma page_ranges_update_commit [simp]:
  "page_ranges (update_commit s pk cols l t row b tp) = page_ranges s"
  by (simp add: update_commit_def update_finish_def update_key_change_def trigger_merge_def Let_def)

lemma get_latest_version_eq:
  "get_latest_version s (pr, pg, slot, k) =
     (if slot < length (d_indirection (page_view s (B, pr, pg)))
      then (case d_indirection (page_view s (B, pr, pg)) ! slot of
              Rid t \<Rightarrow> t | _ \<Rightarrow> (pr, pg, slot, k))
      else (pr, pg, slot, k), s)"
  by (simp add: get_latest_version_def get_page_def Let_def split: pyref.splits)

lemma ensure_tail_page_fields:
  assumes "ensure_tail_page s i = Inr s'"
  shows "num_columns s' = num_columns s" "key s' = key s" "page_directory s' = page_directory s"
    "indices s' = indices s" "length (page_ranges s') = length (page_ranges s)"
    "PAGE_CAPACITY s' = PAGE_CAPACITY s" "page_view s' = page_view s" "pins s' = pins s"
  using assms
  by (auto simp: ensure_tail_page_def put_page_range_def Let_def split: if_splits sum.splits bool.splits)

lemma ensure_tail_page_nonempty:
  assumes "ensure_tail_page s i = Inr s'" "i < length (page_ranges s)"
  shows "tail_pages (page_ranges s' ! i) \<noteq> []"
  using assms
  by (auto simp: ensure_tail_page_def put_page_range_def add_tail_page_def Let_def
        split: if_splits sum.splits bool.splits)

lemma update_write_InrD:
  assumes "update_write s bid bd slot pr tpi td latest trid schema ts row = Inr s'"
  shows "slot < length (d_indirection bd)"
    and "d_indirection (page_view s' (T, pr, tpi)) = d_indirection td @ [Rid latest]"
    and "d_rid (page_view s' (T, pr, tpi)) = d_rid td @ [trid]"
    and "bid \<noteq> (T, pr, tpi) \<Longrightarrow>
           page_view s' bid = bd\<lparr>d_indirection := (d_indirection bd)[slot := Rid trid]\<rparr>"
    and "\<And>q. q \<noteq> bid \<Longrightarrow> q \<noteq> (T, pr, tpi) \<Longrightarrow> page_view s' q = page_view s q"
    and "pr < length (page_ranges s) \<Longrightarrow> tpi < length (tail_pages (page_ranges s ! pr)) \<Longrightarrow>
           p_indirection (tail_pages (page_ranges s' ! pr) ! tpi)
           = p_indirection (tail_pages (page_ranges s ! pr) ! tpi) @ [Rid latest]"
  using assms
  by (auto simp: update_write_def put_tail_page_def put_page_range_def Let_def
        split: sum.splits prod.splits if_splits)

lemma update_row_InrE:
  assumes "update_row s (pr, pg, slot, k) bd latest brec crec tpi td pk cols ts = Inr s'"
  obtains schema_str s1 where
    "schema_loop (replicate (num_columns s) CHR ''0'') 0 cols = Inr schema_str"
    "key s < length (rec_columns brec)"
    "update_write s (B, pr, pg) bd slot pr tpi td latest (pr, tpi, length (d_rid td), T)
       schema_str ts
       (tail_page_columns (num_columns s) (key s) (rec_columns brec ! key s) cols (rec_columns crec))
     = Inr s1"
    "s' = update_commit s1 pk cols latest (pr, tpi, length (d_rid td), T)
            (tail_page_columns (num_columns s) (key s) (rec_columns brec ! key s) cols (rec_columns crec))
            (B, pr, pg) (T, pr, tpi)"
  using assms
  by (auto simp: update_row_def Let_def split: sum.splits if_splits)

lemma update_tail_InrE:
  assumes "update_tail s (pr, pg, slot, k) bd latest brec crec pk cols ts = Inr s'"
  obtains s1 where
    "ensure_tail_page s pr = Inr s1"
    "update_row (pin_page s1 (T, pr, length (tail_pages (page_ranges s1 ! pr)) - 1))
       (pr, pg, slot, k) bd latest brec crec
       (length (tail_pages (page_ranges s1 ! pr)) - 1)
       (page_view s (T, pr, length (tail_pages (page_ranges s1 ! pr)) - 1)) pk cols ts = Inr s'"
  using assms
  by (auto simp: update_tail_def get_page_def Let_def ensure_tail_page_fields split: sum.splits)

lemma update_try_InrE:
  assumes "update_try s (pr, pg, slot, k) pk cols ts = Inr s'"
  obtains brec where
    "pr < length (page_ranges s)"
    "map_of (page_directory s) (pr, pg, slot, k) = Some brec"
    "update_tail (pin_page s (B, pr, pg)) (pr, pg, slot, k) (page_view s (B, pr, pg))
       (fst (get_latest_version s (pr, pg, slot, k))) brec
       (case map_of (page_directory s) (fst (get_latest_version s (pr, pg, slot, k))) of
          Some r \<Rightarrow> r | None \<Rightarrow> brec) pk cols ts = Inr s'"
  using assms
  by (auto simp: update_try_def get_page_def get_latest_version_eq pin_page_def
        split: if_splits option.splits)

lemma lock_guard_fields:
  assumes "lock_guard s k m = Some s'"
  shows "page_view s' = page_view s" "page_ranges s' = page_ranges s"
    "page_directory s' = page_directory s" "indices s' = indices s" "key s' = key s"
    "num_columns s' = num_columns s" "pins s' = pins s" "bp_pages s' = bp_pages s"
    "PAGE_CAPACITY s' = PAGE_CAPACITY s" "MERGE_THRESHOLD s' = MERGE_THRESHOLD s"
  using assms
  by (auto simp: lock_guard_def split: option.splits prod.splits bool.splits)

lemma index_locate_lock_guard:
  "lock_guard s k m = Some s' \<Longrightarrow> index_locate s' = index_locate s"
  by (simp add: index_locate_def fun_eq_iff lock_guard_fields)

lemma updateE:
  assumes "update s pk cols ts = (True, s')"
      and "index_locate s (key s) pk = b # rest"
  obtains s0 where "lock_guard s pk Update = Some s0" "update_try s0 b pk cols ts = Inr s'"
  using assms
  by (auto simp: update_def split: option.splits sum.splits prod.splits)

lemma get_latest_version_fields:
  "fst (get_latest_version s' b) = fst (get_latest_version s b)" if "page_view s' = page_view s"
  using that by (cases b) (simp add: get_latest_version_eq)

lemma update_stagesE:
  assumes "update s pk cols ts = (True, s')"
      and "index_locate s (key s) pk = (pr, pg, slot, k) # rest"
  obtains s0 s1 brec schema_str s2 where
    "lock_guard s pk Update = Some s0"
    "pr < length (page_ranges s)"
    "map_of (page_directory s) (pr, pg, slot, k) = Some brec"
    "key s < length (rec_columns brec)"
    "ensure_tail_page (pin_page s0 (B, pr, pg)) pr = Inr s1"
    "tail_pages (page_ranges s1 ! pr) \<noteq> []"
    "update_write (pin_page s1 (T, pr, length (tail_pages (page_ranges s1 ! pr)) - 1))
       (B, pr, pg) (page_view s (B, pr, pg)) slot pr
       (length (tail_pages (page_ranges s1 ! pr)) - 1)
       (page_view s (T, pr, length (tail_pages (page_ranges s1 ! pr)) - 1))
       (fst (get_latest_version s (pr, pg, slot, k)))
       (pr, length (tail_pages (page_ranges s1 ! pr)) - 1,
        length (d_rid (page_view s (T, pr, length (tail_pages (page_ranges s1 ! pr)) - 1))), T)
       schema_str ts
       (tail_page_columns (num_columns s) (key s) (rec_columns brec ! key s) cols
          (rec_columns (case map_of (page_directory s) (fst (get_latest_version s (pr, pg, slot, k))) of
                          Some r \<Rightarrow> r | None \<Rightarrow> brec))) = Inr s2"
    "s' = update_commit s2 pk cols (fst (get_latest_version s (pr, pg, slot, k)))
       (pr, length (tail_pages (page_ranges s1 ! pr)) - 1,
        length (d_rid (page_view s (T, pr, length (tail_pages (page_ranges s1 ! pr)) - 1))), T)
       (tail_page_columns (num_columns s) (key s) (rec_columns brec ! key s) cols
          (rec_columns (case map_of (page_directory s) (fst (get_latest_version s (pr, pg, slot, k))) of
                          Some r \<Rightarrow> r | None \<Rightarrow> brec)))
       (B, pr, pg) (T, pr, length (tail_pages (page_ranges s1 ! pr)) - 1)"
proof -
  let ?b = "(pr, pg, slot, k)"
  from assms obtain s0 where lg: "lock_guard s pk Update = Some s0"
    and ut: "update_try s0 ?b pk cols ts = Inr s'"
    by (rule updateE)
  note f0 = lock_guard_fields[OF lg]
  have gl: "fst (get_latest_version s0 ?b) = fst (get_latest_version s ?b)"
    by (rule get_latest_version_fields) (rule f0)
  from ut obtain brec where lt: "pr < length (page_ranges s)"
    and br: "map_of (page_directory s) ?b = Some brec"
    and tl: "update_tail (pin_page s0 (B, pr, pg)) ?b (page_view s (B, pr, pg))
       (fst (get_latest_version s ?b)) brec
       (case map_of (page_directory s) (fst (get_latest_version s ?b)) of
          Some r \<Rightarrow> r | None \<Rightarrow> brec) pk cols ts = Inr s'"
    by (rule update_try_InrE) (simp_all add: f0 gl)
  let ?latest = "fst (get_latest_version s ?b)"
  from tl obtain s1 where et: "ensure_tail_page (pin_page s0 (B, pr, pg)) pr = Inr s1"
    and rw: "update_row (pin_page s1 (T, pr, length (tail_pages (page_ranges s1 ! pr)) - 1))
       ?b (page_view s (B, pr, pg)) ?latest brec
       (case map_of (page_directory s) ?latest of Some r \<Rightarrow> r | None \<Rightarrow> brec)
       (length (tail_pages (page_ranges s1 ! pr)) - 1)
       (page_view s (T, pr, length (tail_pages (page_ranges s1 ! pr)) - 1))
       pk cols ts = Inr s'"
    by (rule update_tail_InrE) (simp_all add: f0)
  have ne: "tail_pages (page_ranges s1 ! pr) \<noteq> []"
    using ensure_tail_page_nonempty[OF et] lt by (simp add: f0)
  note f1 = ensure_tail_page_fields[OF et]
  have nk: "num_columns s1 = num_columns s" "key s1 = key s"
    using f1 by (simp_all add: pin_page_def f0)
  from rw obtain schema_str s2 where
    kl: "key s < length (rec_columns brec)" and
    uw: "update_write (pin_page s1 (T, pr, length (tail_pages (page_ranges s1 ! pr)) - 1))
       (B, pr, pg) (page_view s (B, pr, pg)) slot pr
       (length (tail_pages (page_ranges s1 ! pr)) - 1)
       (page_view s (T, pr, length (tail_pages (page_ranges s1 ! pr)) - 1))
       ?latest
       (pr, length (tail_pages (page_ranges s1 ! pr)) - 1,
        length (d_rid (page_view s (T, pr, length (tail_pages (page_ranges s1 ! pr)) - 1))), T)
       schema_str ts
       (tail_page_columns (num_columns s) (key s) (rec_columns brec ! key s) cols
          (rec_columns (case map_of (page_directory s) ?latest of
                          Some r \<Rightarrow> r | None \<Rightarrow> brec))) = Inr s2"
    and s': "s' = update_commit s2 pk cols ?latest
       (pr, length (tail_pages (page_ranges s1 ! pr)) - 1,
        length (d_rid (page_view s (T, pr, length (tail_pages (page_ranges s1 ! pr)) - 1))), T)
       (tail_page_columns (num_columns s) (key s) (rec_columns brec ! key s) cols
          (rec_columns (case map_of (page_directory s) ?latest of
                          Some r \<Rightarrow> r | None \<Rightarrow> brec)))
       (B, pr, pg) (T, pr, length (tail_pages (page_ranges s1 ! pr)) - 1)"
    by (rule update_row_InrE) (simp_all add: pin_page_def nk)
  show ?thesis
    by (rule that[OF lg lt br kl et ne uw s'])
qed

lemma write_columns_Inr:
  assumes "write_columns K i vs dcols phys = Inr (dcols', phys')"
  shows "length dcols' = length dcols \<and> length phys' = length phys
       \<and> (\<forall>j. i \<le> j \<and> j < i + length vs \<longrightarrow>
              j < length dcols \<and> j < length phys
            \<and> dcols' ! j = dcols ! j @ [vs ! (j - i)]
            \<and> phys' ! j = phys ! j @ [vs ! (j - i)])
       \<and> (\<forall>j. j < i \<longrightarrow> dcols' ! j = dcols ! j \<and> phys' ! j = phys ! j)"
  using assms
proof (induction vs arbitrary: i dcols phys)
  case Nil
  then show ?case by simp
next
  case (Cons v vs)
  from Cons.prems have b: "i < length dcols" "i < length phys"
    and rec: "write_columns K (Suc i) vs (dcols[i := dcols ! i @ [v]]) (phys[i := phys ! i @ [v]])
              = Inr (dcols', phys')"
    by (auto split: if_splits)
  note ih = Cons.IH[OF rec]
  show ?case
  proof (intro conjI allI impI)
    show "length dcols' = length dcols" using ih by simp
    show "length phys' = length phys" using ih by simp
  next
    fix j assume j: "i \<le> j \<and> j < i + length (v # vs)"
    show "j < length dcols" "j < length phys"
      "dcols' ! j = dcols ! j @ [(v # vs) ! (j - i)]"
      "phys' ! j = phys ! j @ [(v # vs) ! (j - i)]"
    proof -
      consider "j = i" | "Suc i \<le> j" "j < Suc i + length vs" using j by force
      then have "j < length dcols \<and> j < length phys \<and>
        dcols' ! j = dcols ! j @ [(v # vs) ! (j - i)] \<and>
        phys' ! j = phys ! j @ [(v # vs) ! (j - i)]"
      proof cases
        case 1
        then show ?thesis using ih b by simp
      next
        case 2
        then have "j < length (dcols[i := dcols ! i @ [v]])" "j < length (phys[i := phys ! i @ [v]])"
          "dcols' ! j = dcols[i := dcols ! i @ [v]] ! j @ [vs ! (j - Suc i)]"
          "phys' ! j = phys[i := phys ! i @ [v]] ! j @ [vs ! (j - Suc i)]"
          using ih by blast+
        moreover have "(v # vs) ! (j - i) = vs ! (j - Suc i)" using 2 by (simp add: nth_Cons')
        ultimately show ?thesis using 2 by simp
      qed
      then show "j < length dcols" "j < length phys"
        "dcols' ! j = dcols ! j @ [(v # vs) ! (j - i)]"
        "phys' ! j = phys ! j @ [(v # vs) ! (j - i)]" by simp_all
    qed
  next
    fix j assume "j < i"
    then show "dcols' ! j = dcols ! j" "phys' ! j = phys ! j" using ih by simp_all
  qed
qed

lemma update_write_columns:
  assumes "update_write s bid bd slot pr tpi td latest trid schema ts row = Inr s'"
  obtains dcols phys where
    "write_columns (PAGE_CAPACITY s) 0 row (d_columns td)
       (pages (tail_pages (page_ranges s ! pr) ! tpi)) = Inr (dcols, phys)"
    "d_columns (page_view s' (T, pr, tpi)) = dcols"
    "pr < length (page_ranges s) \<Longrightarrow> tpi < length (tail_pages (page_ranges s ! pr)) \<Longrightarrow>
       pages (tail_pages (page_ranges s' ! pr) ! tpi) = phys"
  using assms
  by (auto simp: update_write_def put_tail_page_def put_page_range_def Let_def
        split: sum.splits prod.splits if_splits)

lemma map_of_dict_set: "map_of (dict_set ps k v) = (map_of ps)(k \<mapsto> v)"
  by (induction ps) (auto simp: fun_eq_iff)

lemma map_base_pages_update:
  "base_pages y = base_pages (xs ! i) \<Longrightarrow> map base_pages (xs[i := y]) = map base_pages xs"
  by (cases "i < length xs") (simp_all add: map_update list_update_same_conv list_update_beyond)

lemma ensure_tail_page_base_pages:
  "ensure_tail_page s i = Inr s' \<Longrightarrow> map base_pages (page_ranges s') = map base_pages (page_ranges s)"
  by (auto simp: ensure_tail_page_def put_page_range_def add_tail_page_def Let_def
        map_base_pages_update split: if_splits sum.splits bool.splits)

lemma update_write_fields:
  assumes "update_write s bid bd slot pr tpi td latest trid schema ts row = Inr s'"
  shows "map base_pages (page_ranges s') = map base_pages (page_ranges s)"
    "page_directory s' = page_directory s" "indices s' = indices s" "key s' = key s"
    "num_columns s' = num_columns s" "pins s' = pins s"
    "MERGE_THRESHOLD s' = MERGE_THRESHOLD s" "merge_counter s' = merge_counter s"
  using assms
  by (auto simp: update_write_def put_tail_page_def put_page_range_def set_page_def Let_def
        map_base_pages_update split: sum.splits prod.splits if_splits)

lemma update_commit_same_key:
  assumes "new_key_of (key s) pk cols = pk"
  shows "page_directory (update_commit s pk cols latest trid row bid tid)
           = dict_set (page_directory s) trid (Record (Rid trid) pk row)"
    "indices (update_commit s pk cols latest trid row bid tid) = indices s"
    "key (update_commit s pk cols latest trid row bid tid) = key s"
  using assms
  by (simp_all add: update_commit_def update_key_change_def update_finish_def trigger_merge_def
        unpin_page_def Let_def)

section \<open>The scenarios, step by step\<close>

lemmas insert_eval_defs =
  insert_def lock_guard_def index_locate_def insert_record_def ensure_page_range_def
  new_page_range_def empty_page_def has_capacity_def has_base_capacity_def put_base_page_def
  put_page_range_def page_append_def get_page_def pin_page_def unpin_page_def set_page_def
  page_view_def empty_page_data_def page_data_append_def index_insert_col_def Let_def

lemmas update_eval_defs =
  update_def lock_guard_def index_locate_def update_try_def update_tail_def update_row_def
  update_write_def update_commit_def update_finish_def update_key_change_def new_key_of_def
  trigger_merge_def ensure_tail_page_def add_tail_page_def has_capacity_def empty_page_def
  put_tail_page_def put_page_range_def get_page_def pin_page_def unpin_page_def set_page_def
  page_view_def empty_page_data_def get_latest_version_def tail_page_columns_def
  tail_page_column_def index_insert_def index_delete_def index_insert_col_def
  index_delete_col_def dict_del_def Let_def

lemma insert_empty_table: "insert empty_table [100, 11, 12] ''t0'' = Inr (True, st1)"
  by (simp add: insert_eval_defs empty_table_def st1_def numeral_3_eq_3 fun_eq_iff)

lemma update_st1: "update st1 100 [None, Some 22, None] ''t1'' = (True, st2)"
  by (simp add: update_eval_defs empty_table_def st1_def st2_def fun_eq_iff upt_rec
        numeral_3_eq_3)

lemma update_st1_key: "update st1 100 [Some 200, None, None] ''t1'' = (True, st_k1)"
  by (simp add: update_eval_defs empty_table_def st1_def st_k1_def fun_eq_iff upt_rec
        numeral_3_eq_3)

lemma update_st1_full: "update st1 100 [Some 100, Some 22, Some 12] ''t1'' = (True, st2_full)"
  by (simp add: update_eval_defs empty_table_def st1_def st2_full_def fun_eq_iff upt_rec
        numeral_3_eq_3)

lemmas select_version_eval_defs =
  select_version_def select_version_try_def select_base_version_def select_latest_version_def
  select_historical_version_def historical_target_def latest_tail_record_def first_base_rid_def
  index_locate_def get_column_value_def get_page_def pin_page_def unpin_page_def page_view_def
  empty_page_data_def Let_def

lemmas delete_eval_defs =
  delete_def delete_try_def lock_guard_def index_locate_def put_base_page_def
  put_page_range_def index_delete_def index_delete_col_def dict_del_def Let_def

lemma update_st_k1: "update st_k1 200 [Some 300, None, None] ''t2'' = (True, st_k2)"
  by (simp add: update_eval_defs empty_table_def st1_def st_k1_def st_k2_def fun_eq_iff upt_rec
        numeral_3_eq_3)

lemma sum_table_reached:
  "update (insert_all empty_table2 [[1, 10], [2, 10], [3, 10], [4, 10], [5, 10]]) 3
     [None, Some 99] ''u'' = (True, sum_table)"
  by (simp add: insert_eval_defs update_eval_defs empty_table2_def sum_table_def fun_eq_iff
        upt_rec numeral_2_eq_2)

lemmas sum_eval_defs =
  claimed_sum_def sum_entry_def record_latest_def forward_pointer_def tail_predecessor_def
  tail_record_count_def index_locate_range_def get_latest_version_def
  get_column_value_def get_page_def pin_page_def unpin_page_def page_view_def
  List.map_filter_simps Let_def

lemma safely_get_latest_version_loop_numeral:
  "safely_get_latest_version_loop (numeral n) s r visited current =
     (case safely_get_latest_version_step s visited current of
        Inl res \<Rightarrow> res
      | Inr (s', visited', current') \<Rightarrow>
          safely_get_latest_version_loop (pred_numeral n) s' r visited' current')"
  by (simp add: numeral_eq_Suc)

lemma safely_get_historical_version_loop_numeral:
  "safely_get_historical_version_loop (numeral n) s base_rid visited current =
     (case safely_get_historical_version_step (pred_numeral n = 0) s base_rid visited current of
        Inl res \<Rightarrow> res
      | Inr (visited', current') \<Rightarrow>
          safely_get_historical_version_loop (pred_numeral n) s base_rid visited' current')"
  by (simp add: numeral_eq_Suc)

lemmas select_version_eval_defs2 =
  select_version_eval_defs safely_get_latest_version_def safely_get_latest_version_loop_numeral
  safely_get_latest_version_step_def safely_get_historical_version_def
  safely_get_historical_version_loop_numeral safely_get_historical_version_step_def

lemmas rk_defs = empty_table_def rk1_def rk2_def rk3_def rk4_def

lemma rk1_reached: "insert_all empty_table [[1, 10, 0], [2, 20, 0]] = rk1"
  by (simp add: insert_eval_defs rk_defs numeral_3_eq_3 fun_eq_iff)

lemma update_rk1: "update rk1 2 [Some 7, None, None] ''u1'' = (True, rk2)"
  by (simp add: update_eval_defs rk_defs fun_eq_iff upt_rec numeral_3_eq_3)

lemma update_rk2: "update rk2 1 [None, Some 11, None] ''u2'' = (True, rk3)"
  by (simp add: update_eval_defs rk_defs fun_eq_iff upt_rec numeral_3_eq_3)

lemma update_rk3: "update rk3 7 [None, None, Some 5] ''u3'' = (True, rk4)"
  by (simp add: update_eval_defs rk_defs fun_eq_iff upt_rec numeral_3_eq_3)

lemma sel_table_reached:
  "update (insert_all empty_table [[1, 2, 0], [2, 2, 0]]) 2 [None, None, Some 5] ''u''
     = (True, sel_table)"
  by (simp add: insert_eval_defs update_eval_defs sel_table_def empty_table_def fun_eq_iff
        upt_rec numeral_3_eq_3)

lemmas sel_defs = sel_table_tail_first_def sel_table_def empty_table_def

lemmas st_defs = empty_table_def st1_def st2_def st3_def st4_def

lemma update_st2: "update st2 100 [None, Some 33, None] ''t2'' = (True, st3)"
  by (simp add: update_eval_defs st_defs fun_eq_iff upt_rec numeral_3_eq_3)

lemma update_st3: "update st3 100 [None, Some 44, None] ''t3'' = (True, st4)"
  by (simp add: update_eval_defs st_defs fun_eq_iff upt_rec numeral_3_eq_3)

section \<open>C1: an update links the new tail record and the base slot\<close>

text \<open>
  What \<open>update\<close> does with the first RID \<open>(pr, pg, slot, k)\<close> that the key index holds
  for the key, a base RID or, after a change of the key, a tail RID: it takes the slot of
  that RID on the base page at the page indices of the RID. The slot is inside the
  indirection list of the base page view; the indirection entry appended to the tail page
  (to its buffer pool view and to the page object) is the forward pointer of that slot, or
  the located RID itself when the slot held none; the RID appended to the tail page view is
  the new tail RID; and that slot of the base page view holds the new tail RID afterwards.
  For a record whose key index entry is its base RID these are the two links of the
  specification.
\<close>

lemma update_links_located_rid:
  assumes "update s primary_key columns timestamp = (True, s')"
      and "index_locate s (key s) primary_key = (pr, pg, slot, k) # rest"
  shows "\<exists>tail_page_idx.
           slot < length (d_indirection (page_view s (B, pr, pg))) \<and>
           (let latest_rid = (case d_indirection (page_view s (B, pr, pg)) ! slot of
                                Rid t \<Rightarrow> t | _ \<Rightarrow> (pr, pg, slot, k));
                tail_rid = (pr, tail_page_idx,
                            length (d_rid (page_view s (T, pr, tail_page_idx))), T)
            in d_indirection (page_view s' (T, pr, tail_page_idx))
                 = d_indirection (page_view s (T, pr, tail_page_idx)) @ [Rid latest_rid]
             \<and> d_rid (page_view s' (T, pr, tail_page_idx))
                 = d_rid (page_view s (T, pr, tail_page_idx)) @ [tail_rid]
             \<and> last (p_indirection (tail_pages (page_ranges s' ! pr) ! tail_page_idx))
                 = Rid latest_rid
             \<and> d_indirection (page_view s' (B, pr, pg)) ! slot = Rid tail_rid)"
proof -
  let ?b = "(pr, pg, slot, k)"
  from assms obtain s0 where lg: "lock_guard s primary_key Update = Some s0"
    and ut: "update_try s0 ?b primary_key columns timestamp = Inr s'"
    by (rule updateE)
  note f0 = lock_guard_fields[OF lg]
  from ut obtain brec where lt: "pr < length (page_ranges s)"
    and tl: "update_tail (pin_page s0 (B, pr, pg)) ?b (page_view s (B, pr, pg))
       (fst (get_latest_version s0 ?b)) brec
       (case map_of (page_directory s0) (fst (get_latest_version s0 ?b)) of
          Some r \<Rightarrow> r | None \<Rightarrow> brec) primary_key columns timestamp = Inr s'"
    by (rule update_try_InrE) (simp_all add: f0)
  let ?latest = "fst (get_latest_version s0 ?b)"
  from tl obtain s1 where et: "ensure_tail_page (pin_page s0 (B, pr, pg)) pr = Inr s1"
    and rw: "update_row (pin_page s1 (T, pr, length (tail_pages (page_ranges s1 ! pr)) - 1))
       ?b (page_view s (B, pr, pg)) ?latest brec
       (case map_of (page_directory s0) ?latest of Some r \<Rightarrow> r | None \<Rightarrow> brec)
       (length (tail_pages (page_ranges s1 ! pr)) - 1)
       (page_view s (T, pr, length (tail_pages (page_ranges s1 ! pr)) - 1))
       primary_key columns timestamp = Inr s'"
    by (rule update_tail_InrE) (simp_all add: f0)
  let ?tpi = "length (tail_pages (page_ranges s1 ! pr)) - 1"
  let ?td = "page_view s (T, pr, ?tpi)"
  let ?trid = "(pr, ?tpi, length (d_rid ?td), T)"
  have ne: "tail_pages (page_ranges s1 ! pr) \<noteq> []"
    using ensure_tail_page_nonempty[OF et] lt by (simp add: f0)
  have lt1: "pr < length (page_ranges s1)"
    using ensure_tail_page_fields(5)[OF et] lt by (simp add: f0)
  from rw obtain schema_str s2 row where
    uw: "update_write (pin_page s1 (T, pr, ?tpi)) (B, pr, pg) (page_view s (B, pr, pg)) slot pr
           ?tpi ?td ?latest ?trid schema_str timestamp row = Inr s2"
    and s': "s' = update_commit s2 primary_key columns ?latest ?trid row (B, pr, pg) (T, pr, ?tpi)"
    by (rule update_row_InrE) simp
  note w = update_write_InrD[OF uw]
  have latest: "?latest = (if slot < length (d_indirection (page_view s (B, pr, pg)))
      then (case d_indirection (page_view s (B, pr, pg)) ! slot of
              Rid t \<Rightarrow> t | _ \<Rightarrow> ?b) else ?b)"
    by (simp add: get_latest_version_eq f0)
  have direct: "p_indirection (tail_pages (page_ranges s' ! pr) ! ?tpi)
           = p_indirection (tail_pages (page_ranges s1 ! pr) ! ?tpi) @ [Rid ?latest]"
    using w(6) lt1 ne by (simp add: s')
  show ?thesis
    apply (rule exI[of _ ?tpi])
    using w(1) w(2) w(3) w(4) direct latest
    by (simp add: s' Let_def)
qed

text \<open>
  C1. After \<open>insert(1, 10, 0)\<close>, \<open>insert(2, 20, 0)\<close>, \<open>update(2, 7, None, None)\<close> and
  \<open>update(1, None, 11, None)\<close> the record with the base RID \<open>(0, 0, 1, 'b')\<close> is found
  under the key 7 through the tail RID \<open>(0, 0, 0, 't')\<close>, which is its latest version and
  the forward pointer of its base slot 1. \<open>update(7, None, None, 5)\<close> succeeds and appends
  the tail record \<open>(0, 0, 2, 't')\<close>. The indirection of the new tail record is
  \<open>(0, 0, 1, 't')\<close>, the latest version of the other record; base slot 1, of the updated
  record, keeps \<open>(0, 0, 0, 't')\<close>; base slot 0, of the other record, takes the new tail
  RID. The claim has \<open>(0, 0, 0, 't')\<close> as the indirection of the new tail record and the
  new tail RID in base slot 1.
\<close>

theorem update_after_key_change_links_other_record:
  "insert_all empty_table [[1, 10, 0], [2, 20, 0]] = rk1
   \<and> update rk1 2 [Some 7, None, None] ''u1'' = (True, rk2)
   \<and> update rk2 1 [None, Some 11, None] ''u2'' = (True, rk3)
   \<and> update rk3 7 [None, None, Some 5] ''u3'' = (True, rk4)
   \<and> index_locate rk3 (key rk3) 7 = [(0, 0, 0, T)]
   \<and> record_base (Suc (tail_record_count rk3)) rk3 (0, 0, 0, T) = (0, 0, 1, B)
   \<and> record_latest rk3 (0, 0, 0, T) = (0, 0, 0, T)
   \<and> record_latest rk3 (0, 0, 0, B) = (0, 0, 1, T)
   \<and> d_indirection (page_view rk3 (B, 0, 0)) = [Rid (0, 0, 1, T), Rid (0, 0, 0, T)]
   \<and> d_rid (page_view rk4 (T, 0, 0)) = d_rid (page_view rk3 (T, 0, 0)) @ [(0, 0, 2, T)]
   \<and> d_indirection (page_view rk4 (T, 0, 0))
        = d_indirection (page_view rk3 (T, 0, 0)) @ [Rid (0, 0, 1, T)]
   \<and> d_indirection (page_view rk4 (B, 0, 0)) = [Rid (0, 0, 2, T), Rid (0, 0, 0, T)]"
  using rk1_reached update_rk1 update_rk2 update_rk3
  by (simp add: index_locate_def record_latest_def forward_pointer_def tail_predecessor_def
        tail_record_count_def page_view_def rk_defs)

section \<open>C2 and C3: the versions after three updates\<close>

text \<open>
  C2. In the table of scenario S3 the forward pointer of the base slot is the latest tail
  RID \<open>(0, 0, 2, 't')\<close>, and from it one step back along the indirections is
  \<open>(0, 0, 1, 't')\<close> and two steps back is \<open>(0, 0, 0, 't')\<close>: two steps exist. But
  \<open>select_version\<close> starts from \<open>_safely_get_latest_version\<close>, whose walk follows the
  tail records back to the oldest one, \<open>(0, 0, 0, 't')\<close>; from there one step reaches the
  base, and version -2 resolves to the base record.
\<close>

theorem step_back_resolves_to_base:
  "fst (get_latest_version st4 (0, 0, 0, B)) = (0, 0, 2, T)
   \<and> safely_get_historical_version st4 (0, 0, 2, T) (0, 0, 0, B) 1 = Rid (0, 0, 1, T)
   \<and> safely_get_historical_version st4 (0, 0, 2, T) (0, 0, 0, B) 2 = Rid (0, 0, 0, T)
   \<and> fst (safely_get_latest_version st4 (0, 0, 0, B)) = (0, 0, 0, T)
   \<and> fst (historical_target st4 (0, 0, 0, B) (- 2)) = Rid (0, 0, 0, B)
   \<and> fst (select_version st4 100 0 [1, 1, 1] (- 2)) = [Record (Rid (0, 0, 0, B)) 100 [100, 11, 12]]"
  by (simp add: select_version_eval_defs2 get_latest_version_def st_defs)

text \<open>
  C3. After \<open>insert(100, 11, 12)\<close> and the updates of column 1 to 22, 33 and 44, the code
  returns for \<open>select_version(100, 0, [1,1,1], v)\<close>: the columns \<open>[100, 22, 12]\<close> for
  version 0, where the claim has \<open>[100, 44, 12]\<close>; \<open>[100, 11, 12]\<close> for version -1, as
  the claim has; and \<open>[100, 11, 12]\<close> for version -2, where the claim has
  \<open>[100, 33, 12]\<close>. Version 0 takes the first tail record of the page directory with the
  key, which is the oldest one.
\<close>

theorem scenario_S3_versions:
  "insert empty_table [100, 11, 12] ''t0'' = Inr (True, st1)
   \<and> update st1 100 [None, Some 22, None] ''t1'' = (True, st2)
   \<and> update st2 100 [None, Some 33, None] ''t2'' = (True, st3)
   \<and> update st3 100 [None, Some 44, None] ''t3'' = (True, st4)
   \<and> fst (select_version st4 100 0 [1, 1, 1] 0) = [Record (Rid (0, 0, 0, T)) 100 [100, 22, 12]]
   \<and> fst (select_version st4 100 0 [1, 1, 1] (- 1)) = [Record (Rid (0, 0, 0, B)) 100 [100, 11, 12]]
   \<and> fst (select_version st4 100 0 [1, 1, 1] (- 2)) = [Record (Rid (0, 0, 0, B)) 100 [100, 11, 12]]"
  using insert_empty_table update_st1 update_st2 update_st3
  by (simp add: select_version_eval_defs2 st_defs)

section \<open>C4: the row of the new tail record\<close>

text \<open>
  The row that \<open>update\<close> appends, with \<open>(pr, pg, slot, k)\<close> the first RID that the key
  index holds for the key, \<open>base_record\<close> the record of that RID in the page directory
  and \<open>current_record\<close> the record of the RID that \<open>_get_latest_version\<close> returns for it
  (the base record when the page directory has none): the tail page takes one value for
  every column of the table, in its buffer pool view and in its page object, and the value
  of column \<open>c\<close> is the key column of the base record when \<open>c\<close> is the key column,
  whatever was supplied; else the supplied value when one is given and not null; else
  column \<open>c\<close> of the current record (0 when it has no such column).
\<close>

lemma update_row_located_rid:
  assumes "update s primary_key columns timestamp = (True, s')"
      and "index_locate s (key s) primary_key = (pr, pg, slot, k) # rest"
  shows "\<exists>tail_page_idx base_record.
           map_of (page_directory s) (pr, pg, slot, k) = Some base_record \<and>
           key s < length (rec_columns base_record) \<and>
           (let latest_rid = fst (get_latest_version s (pr, pg, slot, k));
                current_record = (case map_of (page_directory s) latest_rid of
                                    Some r \<Rightarrow> r | None \<Rightarrow> base_record);
                original_key = rec_columns base_record ! key s;
                old_view = page_view s (T, pr, tail_page_idx);
                tail_view = page_view s' (T, pr, tail_page_idx);
                tail_page = tail_pages (page_ranges s' ! pr) ! tail_page_idx
            in d_rid tail_view = d_rid old_view @ [(pr, tail_page_idx, length (d_rid old_view), T)]
             \<and> (\<forall>c < num_columns s.
                   c < length (d_columns tail_view) \<and> c < length (pages tail_page) \<and>
                   d_columns tail_view ! c = d_columns old_view ! c @
                     [if c = key s then original_key
                      else if c < length columns \<and> columns ! c \<noteq> None then the (columns ! c)
                      else if c < length (rec_columns current_record)
                           then rec_columns current_record ! c else 0] \<and>
                   last (pages tail_page ! c) =
                     (if c = key s then original_key
                      else if c < length columns \<and> columns ! c \<noteq> None then the (columns ! c)
                      else if c < length (rec_columns current_record)
                           then rec_columns current_record ! c else 0)))"
proof -
  let ?b = "(pr, pg, slot, k)"
  let ?latest = "fst (get_latest_version s ?b)"
  from assms obtain s0 s1 brec schema_str s2 where
    lg: "lock_guard s primary_key Update = Some s0" and
    lt: "pr < length (page_ranges s)" and
    br: "map_of (page_directory s) ?b = Some brec" and
    kl: "key s < length (rec_columns brec)" and
    et: "ensure_tail_page (pin_page s0 (B, pr, pg)) pr = Inr s1" and
    ne: "tail_pages (page_ranges s1 ! pr) \<noteq> []" and
    uw: "update_write (pin_page s1 (T, pr, length (tail_pages (page_ranges s1 ! pr)) - 1))
       (B, pr, pg) (page_view s (B, pr, pg)) slot pr
       (length (tail_pages (page_ranges s1 ! pr)) - 1)
       (page_view s (T, pr, length (tail_pages (page_ranges s1 ! pr)) - 1))
       ?latest
       (pr, length (tail_pages (page_ranges s1 ! pr)) - 1,
        length (d_rid (page_view s (T, pr, length (tail_pages (page_ranges s1 ! pr)) - 1))), T)
       schema_str timestamp
       (tail_page_columns (num_columns s) (key s) (rec_columns brec ! key s) columns
          (rec_columns (case map_of (page_directory s) ?latest of
                          Some r \<Rightarrow> r | None \<Rightarrow> brec))) = Inr s2" and
    s': "s' = update_commit s2 primary_key columns ?latest
       (pr, length (tail_pages (page_ranges s1 ! pr)) - 1,
        length (d_rid (page_view s (T, pr, length (tail_pages (page_ranges s1 ! pr)) - 1))), T)
       (tail_page_columns (num_columns s) (key s) (rec_columns brec ! key s) columns
          (rec_columns (case map_of (page_directory s) ?latest of
                          Some r \<Rightarrow> r | None \<Rightarrow> brec)))
       (B, pr, pg) (T, pr, length (tail_pages (page_ranges s1 ! pr)) - 1)"
    by (rule update_stagesE)
  let ?tpi = "length (tail_pages (page_ranges s1 ! pr)) - 1"
  let ?crec = "case map_of (page_directory s) ?latest of Some r \<Rightarrow> r | None \<Rightarrow> brec"
  let ?row = "tail_page_columns (num_columns s) (key s) (rec_columns brec ! key s) columns
                (rec_columns ?crec)"
  note f0 = lock_guard_fields[OF lg]
  have lt1: "pr < length (page_ranges s1)"
    using ensure_tail_page_fields(5)[OF et] lt by (simp add: f0)
  from uw obtain dcols phys where
    wc: "write_columns (PAGE_CAPACITY (pin_page s1 (T, pr, ?tpi))) 0 ?row
           (d_columns (page_view s (T, pr, ?tpi)))
           (pages (tail_pages (page_ranges (pin_page s1 (T, pr, ?tpi)) ! pr) ! ?tpi))
         = Inr (dcols, phys)" and
    dc: "d_columns (page_view s2 (T, pr, ?tpi)) = dcols" and
    ph: "pages (tail_pages (page_ranges s2 ! pr) ! ?tpi) = phys"
    using lt1 ne by (elim update_write_columns) simp_all
  note w = write_columns_Inr[OF wc]
  have len: "length ?row = num_columns s" by (simp add: tail_page_columns_def)
  have nth: "\<And>c. c < num_columns s \<Longrightarrow>
     ?row ! c = tail_page_column (key s) (rec_columns brec ! key s) columns (rec_columns ?crec) c"
    by (simp add: tail_page_columns_def)
  have cols: "\<And>c. c < num_columns s \<Longrightarrow>
      c < length dcols \<and> c < length phys
      \<and> dcols ! c = d_columns (page_view s (T, pr, ?tpi)) ! c @ [?row ! c]
      \<and> last (phys ! c) = ?row ! c"
    using w len by simp
  have rid: "d_rid (page_view s2 (T, pr, ?tpi)) = d_rid (page_view s (T, pr, ?tpi)) @
     [(pr, ?tpi, length (d_rid (page_view s (T, pr, ?tpi))), T)]"
    by (rule update_write_InrD(3)[OF uw])
  show ?thesis
    apply (rule exI[of _ ?tpi])
    apply (rule exI[of _ brec])
    using br kl rid cols dc ph
    by (simp add: s' Let_def nth tail_page_column_def)
qed

text \<open>
  C4. Two updates whose appended row is not the row of the claim. After
  \<open>insert(100, 11, 12)\<close>, \<open>update(100, 200, None, None)\<close> succeeds and moves the key index
  entry of the record from 100 to 200, and the row it appends is \<open>[100, 11, 12]\<close>: the
  supplied key is not in it. The claim has \<open>[200, 11, 12]\<close>. After \<open>insert(1, 10, 0)\<close>,
  \<open>insert(2, 20, 0)\<close>, \<open>update(2, 7, None, None)\<close> and \<open>update(1, None, 11, None)\<close>, the
  latest image of the record under the key 7 is \<open>[2, 20, 0]\<close>; \<open>update(7, None, None, 5)\<close>
  appends \<open>[2, 11, 5]\<close>, whose column 1 is taken from the other record. The claim has
  \<open>[2, 20, 5]\<close>.
\<close>

theorem update_tail_row_diverges:
  "insert empty_table [100, 11, 12] ''t0'' = Inr (True, st1)
   \<and> update st1 100 [Some 200, None, None] ''t1'' = (True, st_k1)
   \<and> index_locate st_k1 (key st_k1) 100 = []
   \<and> index_locate st_k1 (key st_k1) 200 = [(0, 0, 0, T)]
   \<and> map (\<lambda>c. last (d_columns (page_view st_k1 (T, 0, 0)) ! c)) [0, 1, 2] = [100, 11, 12]
   \<and> map (claimed_tail_page_column 0 100 [Some 200, None, None] [100, 11, 12]) [0, 1, 2]
       = [200, 11, 12]
   \<and> insert_all empty_table [[1, 10, 0], [2, 20, 0]] = rk1
   \<and> update rk1 2 [Some 7, None, None] ''u1'' = (True, rk2)
   \<and> update rk2 1 [None, Some 11, None] ''u2'' = (True, rk3)
   \<and> update rk3 7 [None, None, Some 5] ''u3'' = (True, rk4)
   \<and> index_locate rk3 (key rk3) 7 = [(0, 0, 0, T)]
   \<and> map_of (page_directory rk3) (record_latest rk3 (0, 0, 0, T))
       = Some (Record (Rid (0, 0, 0, T)) 2 [2, 20, 0])
   \<and> map (\<lambda>c. last (d_columns (page_view rk4 (T, 0, 0)) ! c)) [0, 1, 2] = [2, 11, 5]
   \<and> map (claimed_tail_page_column 0 2 [None, None, Some 5] [2, 20, 0]) [0, 1, 2]
       = [2, 20, 5]"
  using insert_empty_table update_st1_key rk1_reached update_rk1 update_rk2 update_rk3
  by (simp add: index_locate_def record_latest_def forward_pointer_def tail_predecessor_def
        tail_record_count_def page_view_def claimed_tail_page_column_def rk_defs st_k1_def
        st1_def)

section \<open>C5: delete\<close>

lemma map_of_dict_del: "map_of (dict_del ps k) = (map_of ps)(k := None)"
  by (induction ps) (auto simp: dict_del_def fun_eq_iff)

lemma index_locate_index_delete:
  "index_locate (index_delete s v r) (key s) v = filter (\<lambda>x. x \<noteq> r) (index_locate s (key s) v)"
  by (auto simp: index_locate_def index_delete_def index_delete_col_def Let_def
        map_of_dict_del map_of_dict_set split: option.splits)

lemma delete_no_rid: "index_locate s (key s) primary_key = [] \<Longrightarrow> delete s primary_key = (False, s)"
  by (simp add: delete_def)

lemma delete_try_marks:
  assumes "delete_try s pk (pr, pg, slot, k) = (True, s')"
      and "slot < length (p_indirection (base_pages (page_ranges s ! pr) ! pg))"
  shows "pr < length (page_ranges s) \<and> pg < length (base_pages (page_ranges s ! pr))
       \<and> p_indirection (base_pages (page_ranges s' ! pr) ! pg)
           = (p_indirection (base_pages (page_ranges s ! pr) ! pg))[slot := EmptyMark]
       \<and> map_of (page_directory s') (pr, pg, slot, k) = None
       \<and> index_locate s' (key s) pk = filter (\<lambda>x. x \<noteq> (pr, pg, slot, k)) (index_locate s (key s) pk)"
proof -
  let ?r = "(pr, pg, slot, k)"
  let ?bp = "base_pages (page_ranges s ! pr) ! pg"
  let ?s1 = "put_base_page s pr pg (?bp\<lparr>p_indirection := (p_indirection ?bp)[slot := EmptyMark]\<rparr>)"
  let ?s2 = "if map_of (page_directory ?s1) ?r \<noteq> None
             then ?s1\<lparr>page_directory := dict_del (page_directory ?s1) ?r\<rparr> else ?s1"
  from assms have b: "pr < length (page_ranges s)" "pg < length (base_pages (page_ranges s ! pr))"
    by (auto simp: delete_try_def Let_def split: if_splits)
  from assms b have s': "s' = index_delete ?s2 pk ?r"
    by (simp add: delete_try_def Let_def)
  have k2: "key ?s2 = key s" by (simp add: put_base_page_def put_page_range_def)
  have i2: "indices ?s2 = indices s" by (simp add: put_base_page_def put_page_range_def)
  have pr2: "page_ranges ?s2 = page_ranges ?s1" by simp
  have pd: "map_of (page_directory ?s2) ?r = None"
    by (simp add: map_of_dict_del)
  have pd': "page_directory s' = page_directory ?s2"
    unfolding s' by (simp add: index_delete_def index_delete_col_def Let_def split: option.splits)
  have pr': "page_ranges s' = page_ranges ?s1"
    unfolding s' by (simp add: index_delete_def index_delete_col_def Let_def split: option.splits)
  have loc: "index_locate s' (key s) pk = filter (\<lambda>x. x \<noteq> ?r) (index_locate ?s2 (key s) pk)"
    unfolding s' using index_locate_index_delete[of ?s2 pk ?r] k2 by simp
  have loc2: "index_locate ?s2 (key s) pk = index_locate s (key s) pk"
    using i2 by (simp add: index_locate_def)
  show ?thesis
    using b pd pd' loc loc2
    by (simp add: pr' put_base_page_def put_page_range_def)
qed

text \<open>
  What \<open>delete\<close> does with the first RID \<open>(pr, pg, slot, k)\<close> that the key index holds
  for the key. It returns false, and changes nothing, when the key index has no RID for
  the key. On a successful delete whose located RID has its slot inside the indirection
  list of the base page object at \<open>(pr, pg)\<close>: that slot holds the tombstone afterwards,
  the RID is no longer in the page directory, and the RID is removed from the RIDs that
  the key index has for the key, so that \<open>index.locate(key_col, primary_key)\<close> is empty
  afterwards when the index held no other RID for the key. For a record whose key index
  entry is its base RID this is the delete of the specification. On a successful delete
  whose slot is outside that list (lines 61 to 68), the RID leaves the page directory, and
  the page objects and the index stay as they were.
\<close>

lemma delete_located_rid:
  "(index_locate s (key s) primary_key = [] \<longrightarrow> delete s primary_key = (False, s))
   \<and> (delete s primary_key = (True, s')
        \<and> index_locate s (key s) primary_key = (pr, pg, slot, k) # rest
        \<and> slot < length (p_indirection (base_pages (page_ranges s ! pr) ! pg))
      \<longrightarrow> p_indirection (base_pages (page_ranges s' ! pr) ! pg) ! slot = EmptyMark
          \<and> map_of (page_directory s') (pr, pg, slot, k) = None
          \<and> index_locate s' (key s) primary_key = filter (\<lambda>x. x \<noteq> (pr, pg, slot, k)) rest
          \<and> (set rest \<subseteq> {(pr, pg, slot, k)} \<longrightarrow> index_locate s' (key s) primary_key = []))
   \<and> (delete s primary_key = (True, s')
        \<and> index_locate s (key s) primary_key = (pr, pg, slot, k) # rest
        \<and> length (p_indirection (base_pages (page_ranges s ! pr) ! pg)) \<le> slot
      \<longrightarrow> map_of (page_directory s') (pr, pg, slot, k) = None
          \<and> page_ranges s' = page_ranges s \<and> indices s' = indices s)"
proof (intro conjI impI)
  show "index_locate s (key s) primary_key = [] \<Longrightarrow> delete s primary_key = (False, s)"
    by (rule delete_no_rid)
next
  assume h: "delete s primary_key = (True, s')
        \<and> index_locate s (key s) primary_key = (pr, pg, slot, k) # rest
        \<and> length (p_indirection (base_pages (page_ranges s ! pr) ! pg)) \<le> slot"
  from h obtain s0 where lg: "lock_guard s primary_key Delete = Some s0"
    and dt: "delete_try s0 primary_key (pr, pg, slot, k) = (True, s')"
    by (auto simp: delete_def split: option.splits)
  note f0 = lock_guard_fields[OF lg]
  from dt h have s': "s' = s0\<lparr>page_directory := dict_del (page_directory s0) (pr, pg, slot, k)\<rparr>"
    by (auto simp: delete_try_def Let_def f0 split: if_splits)
  show "map_of (page_directory s') (pr, pg, slot, k) = None"
    by (simp add: s' map_of_dict_del)
  show "page_ranges s' = page_ranges s" by (simp add: s' f0)
  show "indices s' = indices s" by (simp add: s' f0)
next
  assume h: "delete s primary_key = (True, s')
        \<and> index_locate s (key s) primary_key = (pr, pg, slot, k) # rest
        \<and> slot < length (p_indirection (base_pages (page_ranges s ! pr) ! pg))"
  let ?r = "(pr, pg, slot, k)"
  from h obtain s0 where lg: "lock_guard s primary_key Delete = Some s0"
    and dt: "delete_try s0 primary_key ?r = (True, s')"
    by (auto simp: delete_def split: option.splits)
  note f0 = lock_guard_fields[OF lg]
  have sl: "slot < length (p_indirection (base_pages (page_ranges s0 ! pr) ! pg))"
    using h by (simp add: f0)
  note m = delete_try_marks[OF dt sl]
  have loc0: "index_locate s0 (key s0) primary_key = ?r # rest"
    using h by (simp add: index_locate_lock_guard[OF lg] f0)
  show "p_indirection (base_pages (page_ranges s' ! pr) ! pg) ! slot = EmptyMark"
    using m sl by simp
  show "map_of (page_directory s') ?r = None" using m by simp
  show loc': "index_locate s' (key s) primary_key = filter (\<lambda>x. x \<noteq> ?r) rest"
    using m loc0 by (simp add: f0)
  show "index_locate s' (key s) primary_key = []" if "set rest \<subseteq> {?r}"
    using that loc' by (auto simp: filter_empty_conv)
qed

text \<open>
  C5. Two successful deletes of a record whose key was changed. After
  \<open>insert(1, 10, 0)\<close>, \<open>insert(2, 20, 0)\<close> and \<open>update(2, 7, None, None)\<close> the record with
  the base RID \<open>(0, 0, 1, 'b')\<close> is found under the key 7 through the tail RID
  \<open>(0, 0, 0, 't')\<close>. \<open>delete(7)\<close> returns true and writes the tombstone into base slot
  0, the slot of the record with the key 1, which stays in the key index and in the page
  directory; base slot 1, of the deleted record, holds no tombstone. After
  \<open>insert(100, 11, 12)\<close>, \<open>update(100, 200, None, None)\<close> and
  \<open>update(200, 300, None, None)\<close> the key index holds the tail RID \<open>(0, 0, 1, 't')\<close> for
  300, whose slot 1 is outside the one-slot indirection list of base page 0.
  \<open>delete(300)\<close> returns true, the key index still locates the RID, and no slot holds a
  tombstone.
\<close>

theorem delete_after_key_change:
  "insert_all empty_table [[1, 10, 0], [2, 20, 0]] = rk1
   \<and> update rk1 2 [Some 7, None, None] ''u1'' = (True, rk2)
   \<and> index_locate rk2 (key rk2) 7 = [(0, 0, 0, T)]
   \<and> record_base (Suc (tail_record_count rk2)) rk2 (0, 0, 0, T) = (0, 0, 1, B)
   \<and> fst (delete rk2 7) = True
   \<and> map (\<lambda>r. map p_indirection (base_pages r)) (page_ranges (snd (delete rk2 7)))
       = [[[EmptyMark, PyNone]]]
   \<and> index_locate (snd (delete rk2 7)) 0 1 = [(0, 0, 0, B)]
   \<and> map fst (page_directory (snd (delete rk2 7))) = [(0, 0, 0, B)]
   \<and> insert empty_table [100, 11, 12] ''t0'' = Inr (True, st1)
   \<and> update st1 100 [Some 200, None, None] ''t1'' = (True, st_k1)
   \<and> update st_k1 200 [Some 300, None, None] ''t2'' = (True, st_k2)
   \<and> fst (delete st_k2 300) = True
   \<and> index_locate (snd (delete st_k2 300)) 0 300 = [(0, 0, 1, T)]
   \<and> map (\<lambda>r. map p_indirection (base_pages r)) (page_ranges (snd (delete st_k2 300)))
       = [[[PyNone]]]
   \<and> map (\<lambda>r. map p_indirection (tail_pages r)) (page_ranges (snd (delete st_k2 300)))
       = [[[Rid (0, 0, 0, B), Rid (0, 0, 0, T)]]]"
  using rk1_reached update_rk1 insert_empty_table update_st1_key update_st_k1
  by (simp add: delete_eval_defs tail_predecessor_def tail_record_count_def page_view_def
        rk_defs st_k2_def st_k1_def st1_def)

section \<open>C6: the range sum\<close>

lemma distinct_by_key_subset: "set (distinct_by_key ps) \<subseteq> set ps"
  by (induction ps) auto

lemma distinct_by_key_distinct: "distinct (map fst (distinct_by_key ps))"
proof (induction ps)
  case Nil
  show ?case by simp
next
  case (Cons p ps)
  have "distinct (map fst (filter (\<lambda>q. fst q \<noteq> fst p) (distinct_by_key ps)))"
    using Cons.IH by (simp add: distinct_map_filter)
  then show ?case by auto
qed

lemma distinct_by_key_keys: "fst ` set (distinct_by_key ps) = fst ` set ps"
proof (induction ps)
  case Nil
  show ?case by simp
next
  case (Cons p ps)
  have "fst ` set (filter (\<lambda>q. fst q \<noteq> fst p) (distinct_by_key ps))
          = fst ` set (distinct_by_key ps) - {fst p}"
    by auto
  then show ?case using Cons.IH by auto
qed

lemma record_latest_base:
  "snd (snd (snd r)) = B \<Longrightarrow> record_latest s r = fst (get_latest_version s r)"
  by (cases r)
     (simp add: record_latest_def forward_pointer_def get_latest_version_eq Let_def
        split: pyref.splits)

lemma sum_step_eq:
  assumes "snd (snd (snd r)) = B"
  shows "sum_step s lo hi agg r (tot, processed) =
     ((case sum_entry s lo hi agg r of
         None \<Rightarrow> (tot, processed)
       | Some (k, v) \<Rightarrow> if k \<in> set processed then (tot, processed)
                        else (tot + v, k # processed)), s)"
proof -
  obtain l where l: "get_latest_version s r = (l, s)"
    by (metis get_latest_version_state prod.collapse)
  have rl: "record_latest s r = l"
    using record_latest_base[OF assms, of s] l by simp
  obtain kv where kv: "get_column_value s l (key s) = (kv, s)"
    by (metis get_column_value_state prod.collapse)
  obtain av where av: "get_column_value s l agg = (av, s)"
    by (metis get_column_value_state prod.collapse)
  show ?thesis
    by (cases kv) (auto simp: sum_step_def sum_entry_def rl l kv av)
qed

lemma sum_loop_eq:
  assumes "\<forall>r \<in> set rids. snd (snd (snd r)) = B"
  shows "sum_loop s lo hi agg rids (tot, processed) =
     (tot + sum_list (map snd (filter (\<lambda>p. fst p \<notin> set processed)
                (distinct_by_key (List.map_filter (sum_entry s lo hi agg) rids)))), s)"
  using assms
proof (induction rids arbitrary: tot processed)
  case Nil
  show ?case by simp
next
  case (Cons r rids)
  let ?es = "distinct_by_key (List.map_filter (sum_entry s lo hi agg) rids)"
  have rb: "snd (snd (snd r)) = B" using Cons.prems by simp
  have ih: "\<And>tot processed. sum_loop s lo hi agg rids (tot, processed) =
     (tot + sum_list (map snd (filter (\<lambda>p. fst p \<notin> set processed) ?es)), s)"
    using Cons.IH Cons.prems by simp
  show ?case
  proof (cases "sum_entry s lo hi agg r")
    case None
    then show ?thesis by (simp add: sum_step_eq[OF rb] ih)
  next
    case (Some e)
    obtain k v where e: "e = (k, v)" by (cases e) auto
    show ?thesis
    proof (cases "k \<in> set processed")
      case True
      have "filter (\<lambda>p. fst p \<notin> set processed) (filter (\<lambda>q. fst q \<noteq> k) ?es)
              = filter (\<lambda>p. fst p \<notin> set processed) ?es"
        using True by (auto intro!: filter_cong)
      then show ?thesis
        using Some e True by (simp add: sum_step_eq[OF rb] ih)
    next
      case False
      have "filter (\<lambda>p. fst p \<notin> set processed) (filter (\<lambda>q. fst q \<noteq> k) ?es)
              = filter (\<lambda>p. fst p \<notin> set (k # processed)) ?es"
        by (auto intro!: filter_cong)
      then show ?thesis
        using Some e False by (simp add: sum_step_eq[OF rb] ih)
    qed
  qed
qed

text \<open>
  Where every located RID is a base RID, \<open>sum(lo, hi, agg_col)\<close> is the sum of the
  specification, and \<open>False\<close> when the range lookup finds no RID.
\<close>

lemma query_sum_base_rids:
  assumes "\<forall>r \<in> set (index_locate_range s lo hi (key s)). snd (snd (snd r)) = B"
  shows "query_sum s lo hi agg =
     (if index_locate_range s lo hi (key s) = [] then (PyFalse, s)
      else (PyInt (claimed_sum s lo hi agg (index_locate_range s lo hi (key s))), s))"
  by (simp add: query_sum_def Let_def sum_loop_eq[OF assms] claimed_sum_def)

text \<open>Scenario S5: the sum is 139 after the update, and \<open>False\<close> on an empty range.\<close>

lemma scenario_S5_sum:
  "query_sum sum_table 1 5 1 = (PyInt 139, sum_table)
   \<and> query_sum sum_table 6 9 1 = (PyFalse, sum_table)"
proof -
  have b: "\<forall>r \<in> set (index_locate_range sum_table lo hi (key sum_table)). snd (snd (snd r)) = B"
    for lo hi
    by (auto simp: index_locate_range_def sum_table_def empty_table2_def split: if_splits)
  show ?thesis
    using query_sum_base_rids[OF b, of 1 5 1] query_sum_base_rids[OF b, of 6 9 1]
    by (simp add: sum_eval_defs sum_table_def empty_table2_def)
qed

text \<open>
  C6. After \<open>insert(1, 10, 0)\<close>, \<open>insert(2, 20, 0)\<close>, \<open>update(2, 7, None, None)\<close> and
  \<open>update(1, None, 11, None)\<close> the range lookup over \<open>[1, 7]\<close> locates both records: the
  base RID of the first and, under the new key 7, the tail RID \<open>(0, 0, 0, 't')\<close> of the
  second. Their latest versions hold \<open>[1, 11, 0]\<close> and \<open>[2, 20, 0]\<close>, so that the sum of
  column 1 is 31. \<open>sum(1, 7, 1)\<close> returns 11: \<open>_get_latest_version\<close> reads the slot of
  the tail RID on the base page, which is the slot of the first record, finds the key 1
  a second time and drops the entry.
\<close>

theorem sum_drops_rekeyed_record:
  "insert_all empty_table [[1, 10, 0], [2, 20, 0]] = rk1
   \<and> update rk1 2 [Some 7, None, None] ''u1'' = (True, rk2)
   \<and> update rk2 1 [None, Some 11, None] ''u2'' = (True, rk3)
   \<and> index_locate_range rk3 1 7 (key rk3) = [(0, 0, 0, B), (0, 0, 0, T)]
   \<and> record_latest rk3 (0, 0, 0, B) = (0, 0, 1, T)
   \<and> record_latest rk3 (0, 0, 0, T) = (0, 0, 0, T)
   \<and> fst (get_latest_version rk3 (0, 0, 0, T)) = (0, 0, 1, T)
   \<and> claimed_sum rk3 1 7 1 [(0, 0, 0, B), (0, 0, 0, T)] = 31
   \<and> query_sum rk3 1 7 1 = (PyInt 11, rk3)"
  using rk1_reached update_rk1 update_rk2
  by (simp add: query_sum_def sum_step_def sum_eval_defs rk_defs fun_eq_iff)

section \<open>C7: an update leaves the base image as it was\<close>

lemma get_column_value_base_cong:
  assumes "d_columns (page_view s' (B, pr, pg)) = d_columns (page_view s (B, pr, pg))"
      and "map base_pages (page_ranges s') = map base_pages (page_ranges s)"
  shows "fst (get_column_value s' (pr, pg, slot, B) c) = fst (get_column_value s (pr, pg, slot, B) c)"
proof -
  from assms(2) have len: "length (page_ranges s') = length (page_ranges s)"
    by (metis length_map)
  have nth: "pr < length (page_ranges s) \<Longrightarrow>
      base_pages (page_ranges s' ! pr) = base_pages (page_ranges s ! pr)"
    using assms(2) len by (metis nth_map)
  show ?thesis
    using assms(1) len nth
    by (auto simp: get_column_value_def get_page_def unpin_page_def Let_def)
qed

lemma read_projection_cong:
  assumes "\<And>c. fst (get_column_value s' r c) = fst (get_column_value s r c)"
  shows "fst (read_projection s' r i flags) = fst (read_projection s r i flags)"
proof (induction flags arbitrary: i)
  case Nil
  show ?case by simp
next
  case (Cons flag flags)
  obtain v where g: "get_column_value s r i = (v, s)"
    by (metis get_column_value_state prod.collapse)
  obtain v' where g': "get_column_value s' r i = (v', s')"
    by (metis get_column_value_state prod.collapse)
  have vv: "v' = v" using assms[of i] g g' by simp
  obtain vs where p: "read_projection s r (Suc i) flags = (vs, s)"
    by (metis read_projection_state prod.collapse)
  obtain vs' where p': "read_projection s' r (Suc i) flags = (vs', s')"
    by (metis read_projection_state prod.collapse)
  have "vs' = vs" using Cons.IH[of "Suc i"] p p' by simp
  then show ?case using Cons.IH[of "Suc i"] by (simp add: g g' vv p p')
qed

lemma first_base_rid_base [simp]: "first_base_rid ((pr, pg, slot, B) # rest) = (pr, pg, slot, B)"
  by (simp add: first_base_rid_def)

lemma select_version_base_cong:
  assumes "index_locate s' ski sk = index_locate s ski sk"
      and "index_locate s ski sk = (pr, pg, slot, B) # rest"
      and "map_of (page_directory s') (pr, pg, slot, B) = map_of (page_directory s) (pr, pg, slot, B)"
      and "d_columns (page_view s' (B, pr, pg)) = d_columns (page_view s (B, pr, pg))"
      and "map base_pages (page_ranges s') = map base_pages (page_ranges s)"
  shows "fst (select_version s' sk ski proj (- 1)) = fst (select_version s sk ski proj (- 1))"
proof -
  let ?b = "(pr, pg, slot, B)"
  have rp: "fst (read_projection s' ?b 0 proj) = fst (read_projection s ?b 0 proj)"
    by (rule read_projection_cong) (rule get_column_value_base_cong[OF assms(4,5)])
  obtain vs where p: "read_projection s ?b 0 proj = (vs, s)"
    by (metis read_projection_state prod.collapse)
  obtain vs' where p': "read_projection s' ?b 0 proj = (vs', s')"
    by (metis read_projection_state prod.collapse)
  have "vs' = vs" using rp p p' by simp
  then show ?thesis
    using assms(1,2,3)
    by (cases "map_of (page_directory s) ?b")
       (simp_all add: select_version_def select_version_try_def select_base_version_def p p'
          Let_def)
qed

lemma find_dict_set_new:
  "find P ps = None \<Longrightarrow> P (k, v) \<Longrightarrow> find P (dict_set ps k v) = Some (k, v)"
  by (induction ps) (auto split: if_splits)

lemma record_projection_all:
  "i + m \<le> length cols \<Longrightarrow> record_projection cols i (replicate m 1) = Inr (take m (drop i cols))"
proof (induction m arbitrary: i)
  case 0
  show ?case by simp
next
  case (Suc m)
  then have "record_projection cols (Suc i) (replicate m 1) = Inr (take m (drop (Suc i) cols))"
    by simp
  moreover have "take (Suc m) (drop i cols) = cols ! i # take m (drop (Suc i) cols)"
    using Suc.prems by (simp add: Cons_nth_drop_Suc[symmetric])
  ultimately show ?case using Suc.prems by simp
qed

lemma tail_page_columns_all_supplied:
  assumes "length row = n" "k < n \<longrightarrow> row ! k = original_key"
  shows "tail_page_columns n k original_key (map Some row) cur = row"
proof (rule nth_equalityI)
  show "length (tail_page_columns n k original_key (map Some row) cur) = length row"
    using assms(1) by (simp add: tail_page_columns_def)
next
  fix c assume "c < length (tail_page_columns n k original_key (map Some row) cur)"
  then have c: "c < n" by (simp add: tail_page_columns_def)
  then show "tail_page_columns n k original_key (map Some row) cur ! c = row ! c"
    using assms by (simp add: tail_page_columns_def tail_page_column_def)
qed

text \<open>
  C7, as amended. For every key \<open>k\<close> whose first RID in the key index is a base RID
  \<open>(pr, pg, slot, B)\<close>, and every successful \<open>update(k, *columns)\<close> that leaves the
  primary key as it is (the key column is not supplied, null, or equal to \<open>k\<close>):
  \<open>select_version(k, key_col, projection, -1)\<close> returns after the update what it returned
  before; the base pages of the page objects are unchanged; the buffer pool view of the
  base page of the record changes in the indirection slot of the record only, and no other
  base page view changes. When moreover the page directory held no tail record with key
  \<open>k\<close> before, the update supplies a value for every column, and the base record carries
  \<open>k\<close> in its key column, \<open>select_version(k, key_col, all ones, 0)\<close> returns one record
  whose columns are the supplied row.
\<close>

theorem update_preserves_base_image:
  assumes "update s k columns timestamp = (True, s')"
      and "index_locate s (key s) k = (pr, pg, slot, B) # rest"
      and "new_key_of (key s) k columns = k"
  shows "fst (select_version s' k (key s) projection (- 1))
           = fst (select_version s k (key s) projection (- 1))
       \<and> map base_pages (page_ranges s') = map base_pages (page_ranges s)
       \<and> (\<exists>tail_rid. page_view s' (B, pr, pg) = (page_view s (B, pr, pg))
              \<lparr>d_indirection := (d_indirection (page_view s (B, pr, pg)))[slot := Rid tail_rid]\<rparr>)
       \<and> (\<forall>q. fst q = B \<and> q \<noteq> (B, pr, pg) \<longrightarrow> page_view s' q = page_view s q)
       \<and> (latest_tail_record s k = None \<and> columns = map Some row
            \<and> length row = num_columns s
            \<and> map_option (\<lambda>r. rec_columns r ! key s) (map_of (page_directory s) (pr, pg, slot, B))
                = Some k
          \<longrightarrow> (\<exists>tail_rid. fst (select_version s' k (key s) (replicate (num_columns s) 1) 0)
                            = [Record (Rid tail_rid) k row]))"
proof -
  let ?b = "(pr, pg, slot, B)"
  let ?latest = "fst (get_latest_version s ?b)"
  from assms(1,2) obtain s0 s1 brec schema_str s2 where
    lg: "lock_guard s k Update = Some s0" and
    lt: "pr < length (page_ranges s)" and
    br: "map_of (page_directory s) ?b = Some brec" and
    kl: "key s < length (rec_columns brec)" and
    et: "ensure_tail_page (pin_page s0 (B, pr, pg)) pr = Inr s1" and
    ne: "tail_pages (page_ranges s1 ! pr) \<noteq> []" and
    uw: "update_write (pin_page s1 (T, pr, length (tail_pages (page_ranges s1 ! pr)) - 1))
       (B, pr, pg) (page_view s (B, pr, pg)) slot pr
       (length (tail_pages (page_ranges s1 ! pr)) - 1)
       (page_view s (T, pr, length (tail_pages (page_ranges s1 ! pr)) - 1))
       ?latest
       (pr, length (tail_pages (page_ranges s1 ! pr)) - 1,
        length (d_rid (page_view s (T, pr, length (tail_pages (page_ranges s1 ! pr)) - 1))), T)
       schema_str timestamp
       (tail_page_columns (num_columns s) (key s) (rec_columns brec ! key s) columns
          (rec_columns (case map_of (page_directory s) ?latest of
                          Some r \<Rightarrow> r | None \<Rightarrow> brec))) = Inr s2" and
    s': "s' = update_commit s2 k columns ?latest
       (pr, length (tail_pages (page_ranges s1 ! pr)) - 1,
        length (d_rid (page_view s (T, pr, length (tail_pages (page_ranges s1 ! pr)) - 1))), T)
       (tail_page_columns (num_columns s) (key s) (rec_columns brec ! key s) columns
          (rec_columns (case map_of (page_directory s) ?latest of
                          Some r \<Rightarrow> r | None \<Rightarrow> brec)))
       (B, pr, pg) (T, pr, length (tail_pages (page_ranges s1 ! pr)) - 1)"
    by (rule update_stagesE)
  let ?tpi = "length (tail_pages (page_ranges s1 ! pr)) - 1"
  let ?trid = "(pr, ?tpi, length (d_rid (page_view s (T, pr, ?tpi))), T)"
  let ?row = "tail_page_columns (num_columns s) (key s) (rec_columns brec ! key s) columns
          (rec_columns (case map_of (page_directory s) ?latest of
                          Some r \<Rightarrow> r | None \<Rightarrow> brec))"
  note f0 = lock_guard_fields[OF lg]
  note f1 = ensure_tail_page_fields[OF et]
  note f2 = update_write_fields[OF uw]
  note w = update_write_InrD[OF uw]
  have key2: "key s2 = key s" using f2(4) f1(2) by (simp add: pin_page_def f0)
  have nk: "new_key_of (key s2) k columns = k" using assms(3) key2 by simp
  have pd2: "page_directory s2 = page_directory s"
    using f2(2) f1(3) by (simp add: pin_page_def f0)
  have pd': "page_directory s' = dict_set (page_directory s) ?trid (Record (Rid ?trid) k ?row)"
    unfolding s' using update_commit_same_key(1)[OF nk] pd2 by simp
  have ix2: "indices s2 = indices s" using f2(3) f1(4) by (simp add: pin_page_def f0)
  have ix': "indices s' = indices s"
    unfolding s' using update_commit_same_key(2)[OF nk] ix2 by simp
  have loc': "\<And>c v. index_locate s' c v = index_locate s c v"
    by (simp add: index_locate_def ix')
  have bp: "map base_pages (page_ranges s') = map base_pages (page_ranges s)"
    using f2(1) ensure_tail_page_base_pages[OF et] by (simp add: s' f0)
  have bview: "page_view s' (B, pr, pg) = (page_view s (B, pr, pg))
      \<lparr>d_indirection := (d_indirection (page_view s (B, pr, pg)))[slot := Rid ?trid]\<rparr>"
    using w(4) by (simp add: s')
  have others: "\<And>q. fst q = B \<Longrightarrow> q \<noteq> (B, pr, pg) \<Longrightarrow> page_view s' q = page_view s q"
  proof -
    fix q :: page_id assume q: "fst q = B" "q \<noteq> (B, pr, pg)"
    then have "q \<noteq> (T, pr, ?tpi)" by auto
    from w(5)[OF q(2) this] show "page_view s' q = page_view s q"
      using f1(7) by (simp add: s' f0)
  qed
  have mo: "map_of (page_directory s') ?b = map_of (page_directory s) ?b"
    by (simp add: pd' map_of_dict_set)
  have sel: "fst (select_version s' k (key s) projection (- 1))
           = fst (select_version s k (key s) projection (- 1))"
    by (rule select_version_base_cong[OF loc' assms(2) mo _ bp]) (simp add: bview)
  have v0: "\<exists>tail_rid. fst (select_version s' k (key s) (replicate (num_columns s) 1) 0)
                            = [Record (Rid tail_rid) k row]"
    if h: "latest_tail_record s k = None" "columns = map Some row" "length row = num_columns s"
      "map_option (\<lambda>r. rec_columns r ! key s) (map_of (page_directory s) ?b) = Some k"
  proof -
    have ok: "rec_columns brec ! key s = k" using h(4) br by simp
    have rk: "key s < num_columns s \<longrightarrow> row ! key s = rec_columns brec ! key s"
      using assms(3) h(2,3) ok by (auto simp: new_key_of_def split: if_splits)
    have row: "?row = row"
      unfolding h(2) by (rule tail_page_columns_all_supplied[OF h(3) rk])
    have nf: "find (\<lambda>p. rec_key (snd p) = k \<and> snd (snd (snd (fst p))) = T) (page_directory s)
                = None"
      using h(1) by (simp add: latest_tail_record_def)
    have ltr: "latest_tail_record s' k = Some (?trid, Record (Rid ?trid) k row)"
      unfolding latest_tail_record_def pd' row
      by (rule find_dict_set_new[OF nf]) simp
    have rp: "record_projection row 0 (replicate (num_columns s) 1) = Inr row"
      using record_projection_all[of 0 "num_columns s" row] h(3) by simp
    obtain tg where sg: "safely_get_latest_version s' ?b = (tg, s')"
      by (metis safely_get_latest_version_state prod.collapse)
    have "fst (select_version s' k (key s) (replicate (num_columns s) 1) 0)
            = [Record (Rid ?trid) k row]"
      using assms(2)
      by (simp add: select_version_def select_version_try_def select_latest_version_def
            loc' sg ltr rp)
    then show ?thesis by blast
  qed
  show ?thesis
    using sel bp bview others v0 by blast
qed

theorem update_preserves_base_image_witness:
  "update st1 100 [Some 100, Some 22, Some 12] ''t1'' = (True, st2_full)
   \<and> index_locate st1 (key st1) 100 = [(0, 0, 0, B)]
   \<and> new_key_of (key st1) 100 [Some 100, Some 22, Some 12] = 100
   \<and> fst (select_version st2_full 100 (key st1) [1, 1, 1] (- 1))
       = fst (select_version st1 100 (key st1) [1, 1, 1] (- 1))
   \<and> map base_pages (page_ranges st2_full) = map base_pages (page_ranges st1)
   \<and> (\<exists>tail_rid. page_view st2_full (B, 0, 0) = (page_view st1 (B, 0, 0))
          \<lparr>d_indirection := (d_indirection (page_view st1 (B, 0, 0)))[0 := Rid tail_rid]\<rparr>)
   \<and> page_view st2_full (B, 0, 1) = page_view st1 (B, 0, 1)
   \<and> (\<exists>tail_rid. fst (select_version st2_full 100 (key st1) (replicate (num_columns st1) 1) 0)
                    = [Record (Rid tail_rid) 100 [100, 22, 12]])"
proof -
  have loc: "index_locate st1 (key st1) 100 = (0, 0, 0, B) # []"
    by (simp add: index_locate_def st1_def empty_table_def)
  have nk: "new_key_of (key st1) 100 [Some 100, Some 22, Some 12] = 100"
    by (simp add: new_key_of_def st1_def empty_table_def)
  have h: "latest_tail_record st1 100 = None \<and> [Some 100, Some 22, Some 12] = map Some [100, 22, 12]
            \<and> length [100, 22, 12 :: int] = num_columns st1
            \<and> map_option (\<lambda>r. rec_columns r ! key st1) (map_of (page_directory st1) (0, 0, 0, B))
                = Some 100"
    by (simp add: latest_tail_record_def st1_def empty_table_def)
  have q: "fst (B, 0::nat, 1::nat) = B \<and> (B, 0::nat, 1::nat) \<noteq> (B, 0, 0)" by simp
  from update_preserves_base_image[OF update_st1_full loc nk, of "[1, 1, 1]" "[100, 22, 12]"]
    update_st1_full loc nk h q
  show ?thesis by blast
qed

text \<open>
  C7 as stated fails for an update that changes the key: after \<open>insert(100, 11, 12)\<close> and
  the successful \<open>update(100, 200, None, None)\<close>, \<open>select_version(100, 0, [1,1,1], -1)\<close>
  is empty, where it returned the base record before.
\<close>

theorem update_preserves_base_image_counterexample:
  "update st1 100 [Some 200, None, None] ''t1'' = (True, st_k1)
   \<and> fst (select_version st1 100 0 [1, 1, 1] (- 1)) = [Record (Rid (0, 0, 0, B)) 100 [100, 11, 12]]
   \<and> fst (select_version st_k1 100 0 [1, 1, 1] (- 1)) = []"
  using update_st1_key
  by (simp add: select_version_eval_defs st_k1_def st1_def empty_table_def)

section \<open>C8: an exception that reaches the caller\<close>

text \<open>
  C8. \<open>insert\<close> reads \<open>columns[self.table.key]\<close> before its \<open>try\<close>: with fewer columns
  than the key index needs, the \<open>IndexError\<close> reaches the caller instead of \<open>False\<close>.
\<close>

theorem insert_too_few_columns_raises:
  "insert empty_table [] ''t0'' = Inl IndexError
   \<and> insert (empty_table\<lparr>key := 2\<rparr>) [100, 11] ''t0'' = Inl IndexError"
  by (simp add: insert_def empty_table_def)

section \<open>C9: pages left pinned\<close>

text \<open>
  C9. An exception in the \<open>try\<close> of \<open>update\<close> skips both \<open>unpin_page\<close> calls. With a
  fourth, non-null column on the table of three columns the schema loop raises: the update
  returns \<open>False\<close> and the base page and the tail page keep one pin each. The same
  happens with three columns after a key-changing update: \<open>update(100, 200, None, None)\<close>
  succeeds and restores the pin counts, and \<open>update(200, None, 5, None)\<close> then raises at
  the write of the base indirection slot, returns \<open>False\<close> and leaves both pages pinned.
\<close>

theorem update_exception_leaves_pages_pinned:
  "fst (update st2 100 [None, None, None, Some 5] ''t2'') = False
   \<and> pins st2 (B, 0, 0) = 0 \<and> pins st2 (T, 0, 0) = 0
   \<and> pins (snd (update st2 100 [None, None, None, Some 5] ''t2'')) (B, 0, 0) = 1
   \<and> pins (snd (update st2 100 [None, None, None, Some 5] ''t2'')) (T, 0, 0) = 1
   \<and> fst (update st2 100 [Some 200, None, None] ''t2'') = True
   \<and> pins (snd (update st2 100 [Some 200, None, None] ''t2'')) = pins st2
   \<and> fst (update (snd (update st2 100 [Some 200, None, None] ''t2'')) 200
              [None, Some 5, None] ''t3'') = False
   \<and> pins (snd (update (snd (update st2 100 [Some 200, None, None] ''t2'')) 200
                     [None, Some 5, None] ''t3'')) (B, 0, 0) = 1
   \<and> pins (snd (update (snd (update st2 100 [Some 200, None, None] ''t2'')) 200
                     [None, Some 5, None] ''t3'')) (T, 0, 0) = 1"
  by (simp add: update_eval_defs st_defs numeral_3_eq_3 upt_rec fun_eq_iff)

section \<open>C10: select_version returns one record\<close>

lemma handler_projection_eq:
  "handler_projection sk ski i flags =
     map (\<lambda>j. if j = ski then sk else 0)
       (filter (\<lambda>j. flags ! (j - i) = 1) [i..<i + length flags])"
proof (induction flags arbitrary: i)
  case Nil
  show ?case by simp
next
  case (Cons f fs)
  have up: "[i..<i + length (f # fs)] = i # [Suc i..<Suc (i + length fs)]"
    by (simp add: upt_rec)
  have fc: "filter (\<lambda>j. (f # fs) ! (j - i) = 1) [Suc i..<Suc (i + length fs)]
              = filter (\<lambda>j. fs ! (j - Suc i) = 1) [Suc i..<Suc (i + length fs)]"
    by (rule filter_cong) (auto simp: nth_Cons' Suc_diff_le)
  have ih: "handler_projection sk ski (Suc i) fs =
     map (\<lambda>j. if j = ski then sk else 0)
       (filter (\<lambda>j. fs ! (j - Suc i) = 1) [Suc i..<Suc (i + length fs)])"
    using Cons.IH[of "Suc i"] by simp
  have "handler_projection sk ski i (f # fs) =
     map (\<lambda>j. if j = ski then sk else 0)
       (filter (\<lambda>j. (f # fs) ! (j - i) = 1) (i # [Suc i..<Suc (i + length fs)]))"
    unfolding filter.simps fc by (simp add: ih)
  then show ?case unfolding up .
qed

text \<open>
  The result of the \<open>try\<close> of \<open>select_version\<close> does not read the index: the functions
  it calls return the same values when the index is replaced.
\<close>

lemma get_column_value_indices:
  "fst (get_column_value (s\<lparr>indices := i\<rparr>) r c) = fst (get_column_value s r c)"
  by (cases r)
     (simp add: get_column_value_def get_page_def page_view_def pin_page_def unpin_page_def
        Let_def)

lemma read_projection_indices:
  "fst (read_projection (s\<lparr>indices := i\<rparr>) r n flags) = fst (read_projection s r n flags)"
proof (induction flags arbitrary: n)
  case Nil
  show ?case by simp
next
  case (Cons flag flags)
  obtain v where g: "get_column_value s r n = (v, s)"
    by (metis get_column_value_state prod.collapse)
  obtain v' where g': "get_column_value (s\<lparr>indices := i\<rparr>) r n = (v', s\<lparr>indices := i\<rparr>)"
    by (metis get_column_value_state prod.collapse)
  have vv: "v' = v" using get_column_value_indices[where s=s and i=i and r=r and c=n] g g' by simp
  obtain vs where p: "read_projection s r (Suc n) flags = (vs, s)"
    by (metis read_projection_state prod.collapse)
  obtain vs' where p': "read_projection (s\<lparr>indices := i\<rparr>) r (Suc n) flags = (vs', s\<lparr>indices := i\<rparr>)"
    by (metis read_projection_state prod.collapse)
  have "vs' = vs" using Cons.IH[of "Suc n"] p p' by simp
  then show ?case by (simp add: g g' vv p p' Cons.IH)
qed

lemma safely_get_latest_version_step_indices:
  "safely_get_latest_version_step (s\<lparr>indices := i\<rparr>) visited current =
     map_sum (\<lambda>p. (fst p, s\<lparr>indices := i\<rparr>)) (\<lambda>q. (s\<lparr>indices := i\<rparr>, snd q))
       (safely_get_latest_version_step s visited current)"
  by (cases current)
     (simp add: safely_get_latest_version_step_def get_page_def page_view_def pin_page_def
        unpin_page_def Let_def split: pyref.splits)

lemma safely_get_latest_version_loop_indices:
  "fst (safely_get_latest_version_loop n (s\<lparr>indices := i\<rparr>) r visited current)
     = fst (safely_get_latest_version_loop n s r visited current)"
proof (induction n arbitrary: visited current)
  case 0
  show ?case by simp
next
  case (Suc n)
  show ?case
  proof (cases "safely_get_latest_version_step s visited current")
    case (Inl res)
    then show ?thesis by (simp add: safely_get_latest_version_step_indices)
  next
    case (Inr c)
    obtain s' v' c' where c: "c = (s', v', c')" by (cases c) auto
    with Inr have "s' = s" using safely_get_latest_version_step_state(2) by blast
    with Inr c Suc.IH show ?thesis by (simp add: safely_get_latest_version_step_indices)
  qed
qed

lemma safely_get_latest_version_indices:
  "safely_get_latest_version (s\<lparr>indices := i\<rparr>) r
     = (fst (safely_get_latest_version s r), s\<lparr>indices := i\<rparr>)"
  by (metis safely_get_latest_version_def safely_get_latest_version_loop_indices
        safely_get_latest_version_state prod.collapse)

lemma safely_get_historical_version_step_indices:
  "safely_get_historical_version_step l (s\<lparr>indices := i\<rparr>) b visited current
     = safely_get_historical_version_step l s b visited current"
  by (cases current) (simp add: safely_get_historical_version_step_def Let_def)

lemma safely_get_historical_version_indices:
  "safely_get_historical_version_loop n (s\<lparr>indices := i\<rparr>) b visited current
     = safely_get_historical_version_loop n s b visited current"
proof (induction n arbitrary: visited current)
  case 0
  show ?case by simp
next
  case (Suc n)
  show ?case
  proof (cases "safely_get_historical_version_step (n = 0) s b visited current")
    case (Inl res)
    then show ?thesis by (simp add: safely_get_historical_version_step_indices)
  next
    case (Inr c)
    obtain v' c' where "c = (v', c')" by (cases c) auto
    with Inr Suc.IH show ?thesis by (simp add: safely_get_historical_version_step_indices)
  qed
qed

lemma select_version_try_indices:
  "map_sum fst fst (select_version_try (s\<lparr>indices := i\<rparr>) r sk proj v)
     = map_sum fst fst (select_version_try s r sk proj v)"
proof -
  obtain l where l: "safely_get_latest_version s r = (l, s)"
    by (metis safely_get_latest_version_state prod.collapse)
  have l': "safely_get_latest_version (s\<lparr>indices := i\<rparr>) r = (l, s\<lparr>indices := i\<rparr>)"
    by (simp add: safely_get_latest_version_indices l)
  have rp: "\<And>x. read_projection (s\<lparr>indices := i\<rparr>) x 0 proj
               = (fst (read_projection s x 0 proj), s\<lparr>indices := i\<rparr>)"
    by (metis read_projection_indices read_projection_state prod.collapse)
  have rp0: "\<And>x. read_projection s x 0 proj = (fst (read_projection s x 0 proj), s)"
    by (metis read_projection_state prod.collapse)
  have base: "map_sum fst fst (select_base_version (s\<lparr>indices := i\<rparr>) r sk proj)
                = map_sum fst fst (select_base_version s r sk proj)"
    using rp[of r] rp0[of r]
    by (simp add: select_base_version_def split: option.splits prod.splits)
  have lat: "map_sum fst fst (select_latest_version (s\<lparr>indices := i\<rparr>) r sk proj)
                = map_sum fst fst (select_latest_version s r sk proj)"
    using rp[of l] rp0[of l]
    by (simp add: select_latest_version_def l l' latest_tail_record_def
          split: option.splits prod.splits sum.splits)
  have hist: "map_sum fst fst (select_historical_version (s\<lparr>indices := i\<rparr>) r sk proj v)
                = map_sum fst fst (select_historical_version s r sk proj v)"
  proof (cases "fst (historical_target s r v)")
    case (Rid t)
    then show ?thesis
      using rp[of t]
      by (auto simp: select_historical_version_def historical_target_def l l'
          safely_get_historical_version_def safely_get_historical_version_indices
          split_beta split: if_splits)
  next
    case PyNone
    then show ?thesis
      by (auto simp: select_historical_version_def historical_target_def l l'
          safely_get_historical_version_def safely_get_historical_version_indices
          split: if_splits)
  next
    case EmptyMark
    then show ?thesis
      by (auto simp: select_historical_version_def historical_target_def l l'
          safely_get_historical_version_def safely_get_historical_version_indices
          split: if_splits)
  qed
  show ?thesis
    by (simp add: select_version_try_def base lat hist)
qed

lemma first_base_rid_first:
  assumes "(snd (snd (snd m)) = B \<and> (\<forall>r \<in> set pre. snd (snd (snd r)) \<noteq> B))
           \<or> (pre = [] \<and> (\<forall>r \<in> set (m # post). snd (snd (snd r)) \<noteq> B))"
  shows "first_base_rid (pre @ m # post) = m"
  using assms
proof
  assume a: "snd (snd (snd m)) = B \<and> (\<forall>r \<in> set pre. snd (snd (snd r)) \<noteq> B)"
  then have "filter (\<lambda>r. snd (snd (snd r)) = B) pre = []"
    by (simp add: filter_empty_conv)
  with a show ?thesis by (simp add: first_base_rid_def)
next
  assume a: "pre = [] \<and> (\<forall>r \<in> set (m # post). snd (snd (snd r)) \<noteq> B)"
  then have "filter (\<lambda>r. snd (snd (snd r)) = B) (m # post) = []"
    by (simp add: filter_empty_conv)
  with a show ?thesis by (simp add: first_base_rid_def)
qed

text \<open>
  C10. Let the index lookup of \<open>select_version\<close> return the RIDs \<open>pre @ m # post\<close>,
  where \<open>m\<close> is the first base RID of the list (\<open>m\<close> is a base RID and \<open>pre\<close> holds
  none), or the first RID of a list that holds no base RID. Then the returned list holds
  exactly one record, and it is the list that \<open>select_version\<close> returns when the index
  holds \<open>m\<close> alone under the search key: the RIDs before and after \<open>m\<close> have no part in
  it. When the body of the \<open>try\<close> raises for \<open>m\<close>, the one record has the RID \<open>m\<close>, the
  search key, and for every projected column the search key at the position of the search
  column and 0 elsewhere; when it returns a record, the list holds that record; for
  version -1 that is the record of \<open>m\<close> in the page directory when there is one.
\<close>

theorem select_version_single_record:
  assumes "index_locate s search_key_index search_key = pre @ m # post"
      and "(snd (snd (snd m)) = B \<and> (\<forall>r \<in> set pre. snd (snd (snd r)) \<noteq> B))
           \<or> (pre = [] \<and> (\<forall>r \<in> set (m # post). snd (snd (snd r)) \<noteq> B))"
  shows "(\<exists>r. fst (select_version s search_key search_key_index projected relative_version) = [r])
       \<and> fst (select_version s search_key search_key_index projected relative_version)
           = fst (select_version
                    (s\<lparr>indices := (indices s)(search_key_index \<mapsto> [(search_key, [m])])\<rparr>)
                    search_key search_key_index projected relative_version)
       \<and> ((\<exists>e s1. select_version_try s m search_key projected relative_version = Inl (e, s1))
          \<longrightarrow> fst (select_version s search_key search_key_index projected relative_version)
                = [Record (Rid m) search_key
                     (map (\<lambda>i. if i = search_key_index then search_key else 0)
                        (filter (\<lambda>i. projected ! i = 1) [0..<length projected]))])
       \<and> (\<forall>r s1. select_version_try s m search_key projected relative_version = Inr (r, s1)
          \<longrightarrow> fst (select_version s search_key search_key_index projected relative_version) = [r])
       \<and> (\<forall>r. relative_version = - 1 \<and> map_of (page_directory s) m = Some r
          \<longrightarrow> fst (select_version s search_key search_key_index projected relative_version) = [r])"
proof -
  let ?s' = "s\<lparr>indices := (indices s)(search_key_index \<mapsto> [(search_key, [m])])\<rparr>"
  let ?t = "select_version_try s m search_key projected relative_version"
  let ?t' = "select_version_try ?s' m search_key projected relative_version"
  have fb: "first_base_rid (index_locate s search_key_index search_key) = m"
    unfolding assms(1) by (rule first_base_rid_first[OF assms(2)])
  have ne: "index_locate s search_key_index search_key \<noteq> []"
    by (simp add: assms(1))
  have loc': "index_locate ?s' search_key_index search_key = [m]"
    by (simp add: index_locate_def)
  have fb': "first_base_rid [m] = m"
    by (simp add: first_base_rid_def split: list.splits)
  have sv: "fst (select_version s search_key search_key_index projected relative_version) =
     (case map_sum fst fst ?t of
        Inr r \<Rightarrow> [r]
      | Inl e \<Rightarrow> [Record (Rid m) search_key
                    (handler_projection search_key search_key_index 0 projected)])"
    using ne by (simp add: select_version_def Let_def fb split: sum.splits prod.splits)
  have sv': "fst (select_version ?s' search_key search_key_index projected relative_version) =
     (case map_sum fst fst ?t' of
        Inr r \<Rightarrow> [r]
      | Inl e \<Rightarrow> [Record (Rid m) search_key
                    (handler_projection search_key search_key_index 0 projected)])"
    by (simp add: select_version_def Let_def loc' fb' split: sum.splits prod.splits)
  have one: "\<exists>r. fst (select_version s search_key search_key_index projected relative_version) = [r]"
    unfolding sv by (cases "map_sum fst fst ?t") simp_all
  have same: "fst (select_version s search_key search_key_index projected relative_version)
           = fst (select_version ?s' search_key search_key_index projected relative_version)"
    unfolding sv sv' by (simp add: select_version_try_indices)
  have exc: "fst (select_version s search_key search_key_index projected relative_version)
                = [Record (Rid m) search_key
                     (map (\<lambda>i. if i = search_key_index then search_key else 0)
                        (filter (\<lambda>i. projected ! i = 1) [0..<length projected]))]"
    if "\<exists>e s1. ?t = Inl (e, s1)"
    using that unfolding sv by (auto simp: handler_projection_eq)
  have ret: "fst (select_version s search_key search_key_index projected relative_version) = [r]"
    if "?t = Inr (r, s1)" for r s1
    using that unfolding sv by simp
  have basev: "fst (select_version s search_key search_key_index projected relative_version) = [r]"
    if "relative_version = - 1 \<and> map_of (page_directory s) m = Some r" for r
    using that unfolding sv by (simp add: select_version_try_def select_base_version_def)
  from one same exc ret basev show ?thesis by blast
qed

theorem select_version_single_record_witness:
  "update (insert_all empty_table [[1, 2, 0], [2, 2, 0]]) 2 [None, None, Some 5] ''u''
     = (True, sel_table)
   \<and> index_locate sel_table 1 2 = [] @ (0, 0, 0, B) # [(0, 0, 1, B)]
   \<and> select_version_try sel_table (0, 0, 0, B) 2 [1, 1, 1, 1] 0 = Inl (IndexError, sel_table)
   \<and> fst (select_version sel_table 2 1 [1, 1, 1, 1] 0)
       = [Record (Rid (0, 0, 0, B)) 2 [0, 2, 0, 0]]
   \<and> fst (select_version
             (sel_table\<lparr>indices := (indices sel_table)(1 \<mapsto> [(2, [(0, 0, 0, B)])])\<rparr>)
             2 1 [1, 1, 1, 1] 0)
       = [Record (Rid (0, 0, 0, B)) 2 [0, 2, 0, 0]]
   \<and> map_of (page_directory sel_table) (0, 0, 0, B)
       = Some (Record (Rid (0, 0, 0, B)) 1 [1, 2, 0])
   \<and> fst (select_version sel_table 2 1 [1, 1, 1] (- 1))
       = [Record (Rid (0, 0, 0, B)) 1 [1, 2, 0]]
   \<and> index_locate sel_table_tail_first 1 2 = [(0, 0, 0, T)] @ (0, 0, 1, B) # [(0, 0, 0, B)]
   \<and> map_of (page_directory sel_table_tail_first) (0, 0, 1, B)
       = Some (Record (Rid (0, 0, 1, B)) 2 [2, 2, 0])
   \<and> fst (select_version sel_table_tail_first 2 1 [1, 1, 1] (- 1))
       = [Record (Rid (0, 0, 1, B)) 2 [2, 2, 0]]
   \<and> select_version_try sel_table_tail_first (0, 0, 1, B) 2 [1, 1, 1] (- 2)
       = Inr (Record (Rid (0, 0, 1, B)) 2 [2, 2, 0], sel_table_tail_first)
   \<and> fst (select_version sel_table_tail_first 2 1 [1, 1, 1] (- 2))
       = [Record (Rid (0, 0, 1, B)) 2 [2, 2, 0]]"
proof -
  have loc: "index_locate sel_table 1 2 = [] @ (0, 0, 0, B) # [(0, 0, 1, B)]"
    by (simp add: index_locate_def sel_defs)
  have k: "(snd (snd (snd (0::nat, 0::nat, 0::nat, B))) = B
              \<and> (\<forall>r \<in> set ([] :: rid list). snd (snd (snd r)) \<noteq> B))
           \<or> (([] :: rid list) = []
              \<and> (\<forall>r \<in> set ((0, 0, 0, B) # [(0, 0, 1, B)]). snd (snd (snd r)) \<noteq> B))"
    by simp
  have loc2: "index_locate sel_table_tail_first 1 2
                = [(0, 0, 0, T)] @ (0, 0, 1, B) # [(0, 0, 0, B)]"
    by (simp add: index_locate_def sel_defs)
  have k2: "(snd (snd (snd (0::nat, 0::nat, 1::nat, B))) = B
              \<and> (\<forall>r \<in> set [(0::nat, 0::nat, 0::nat, T)]. snd (snd (snd r)) \<noteq> B))
           \<or> ([(0::nat, 0::nat, 0::nat, T)] = []
              \<and> (\<forall>r \<in> set ((0, 0, 1, B) # [(0, 0, 0, B)]). snd (snd (snd r)) \<noteq> B))"
    by simp
  have t1: "select_version_try sel_table (0, 0, 0, B) 2 [1, 1, 1, 1] 0
              = Inl (IndexError, sel_table)"
    by (simp add: select_version_eval_defs2 sel_defs fun_eq_iff)
  have pd1: "map_of (page_directory sel_table) (0, 0, 0, B)
               = Some (Record (Rid (0, 0, 0, B)) 1 [1, 2, 0])"
    by (simp add: sel_defs)
  have pd2: "map_of (page_directory sel_table_tail_first) (0, 0, 1, B)
               = Some (Record (Rid (0, 0, 1, B)) 2 [2, 2, 0])"
    by (simp add: sel_defs)
  have t2: "select_version_try sel_table_tail_first (0, 0, 1, B) 2 [1, 1, 1] (- 2)
              = Inr (Record (Rid (0, 0, 1, B)) 2 [2, 2, 0], sel_table_tail_first)"
    by (simp add: select_version_eval_defs2 sel_defs fun_eq_iff)
  have f: "map (\<lambda>i. if i = 1 then 2 else 0)
             (filter (\<lambda>i. [1, 1, 1, 1 :: int] ! i = 1) [0..<length [1, 1, 1, 1 :: int]])
             = [0, 2, 0, 0 :: int]"
    by (simp add: upt_rec)
  note a = select_version_single_record[OF loc k, of "[1, 1, 1, 1]" 0]
  note b = select_version_single_record[OF loc k, of "[1, 1, 1]" "- 1"]
  note c = select_version_single_record[OF loc2 k2, of "[1, 1, 1]" "- 1"]
  note d = select_version_single_record[OF loc2 k2, of "[1, 1, 1]" "- 2"]
  have r1: "fst (select_version sel_table 2 1 [1, 1, 1, 1] 0)
              = [Record (Rid (0, 0, 0, B)) 2 [0, 2, 0, 0]]"
  proof -
    from a t1 have "fst (select_version sel_table 2 1 [1, 1, 1, 1] 0)
        = [Record (Rid (0, 0, 0, B)) 2
             (map (\<lambda>i. if i = 1 then 2 else 0)
                (filter (\<lambda>i. [1, 1, 1, 1 :: int] ! i = 1) [0..<length [1, 1, 1, 1 :: int]]))]"
      by blast
    then show ?thesis unfolding f .
  qed
  have r1': "fst (select_version
             (sel_table\<lparr>indices := (indices sel_table)(1 \<mapsto> [(2, [(0, 0, 0, B)])])\<rparr>)
             2 1 [1, 1, 1, 1] 0) = [Record (Rid (0, 0, 0, B)) 2 [0, 2, 0, 0]]"
  proof -
    from a have "fst (select_version sel_table 2 1 [1, 1, 1, 1] 0)
        = fst (select_version
             (sel_table\<lparr>indices := (indices sel_table)(1 \<mapsto> [(2, [(0, 0, 0, B)])])\<rparr>)
             2 1 [1, 1, 1, 1] 0)"
      by blast
    with r1 show ?thesis by simp
  qed
  have r2: "fst (select_version sel_table 2 1 [1, 1, 1] (- 1))
              = [Record (Rid (0, 0, 0, B)) 1 [1, 2, 0]]"
    using b pd1 by blast
  have r3: "fst (select_version sel_table_tail_first 2 1 [1, 1, 1] (- 1))
              = [Record (Rid (0, 0, 1, B)) 2 [2, 2, 0]]"
    using c pd2 by blast
  have r4: "fst (select_version sel_table_tail_first 2 1 [1, 1, 1] (- 2))
              = [Record (Rid (0, 0, 1, B)) 2 [2, 2, 0]]"
    using d t2 by blast
  from a sel_table_reached loc t1 r1 r1' pd1 r2 loc2 pd2 r3 t2 r4
  show ?thesis by blast
qed

end
